theory Spec2Isabelle
  imports Complex_Main
begin

section \<open>Linear MPC path tracking (Control/linear\_mpc.py)\<close>

text \<open>
  Python floats are modelled as real numbers: rounding, signed zeros, infinities and NaN
  are outside the model. The one exception is the look-ahead of
  \<open>calc_optimal_trajectory_in_T_step\<close>, where a rounded sum decides an index: there the
  float operations are parameters and an overflow is a value. Every raise of the source is a
  value of type \<open>error\<close>, returned on the left of a sum.
\<close>

subsection \<open>Configuration: class P\<close>

definition P_NX :: nat where "P_NX = 4"
definition P_NU :: nat where "P_NU = 2"
definition P_T :: nat where "P_T = 6"

definition P_GOAL_DIS :: real where "P_GOAL_DIS = 1.5"
definition P_STOP_SPEED :: real where "P_STOP_SPEED = 0.5 / 3.6"
definition P_MAX_TIME :: real where "P_MAX_TIME = 500"
definition P_MAX_ITER :: nat where "P_MAX_ITER = 5"
definition P_TARGET_SPEED :: real where "P_TARGET_SPEED = 10 / 3.6"
definition P_N_IND_SEARCH :: int where "P_N_IND_SEARCH = 10"
definition P_dt :: real where "P_dt = 0.2"
definition P_DU_TH :: real where "P_DU_TH = 0.1"

definition P_WB :: real where "P_WB = 2.5"
definition deg2rad :: "real \<Rightarrow> real" where "deg2rad d = d * pi / 180"
definition P_MAX_STEER :: real where "P_MAX_STEER = deg2rad 45"
definition P_MAX_DSTEER :: real where "P_MAX_DSTEER = deg2rad 30"
definition P_MAX_SPEED :: real where "P_MAX_SPEED = 55 / 3.6"
definition P_MIN_SPEED :: real where "P_MIN_SPEED = - 20 / 3.6"
definition P_MAX_ACCEL :: real where "P_MAX_ACCEL = 1"

subsection \<open>Errors, vectors and matrices\<close>

datatype error =
  IndexError | ValueError | TypeError | ZeroDivisionError | OverflowError | UnboundLocalError

type_synonym vec = "real list"
type_synonym mat = "real list list"

definition bind_err :: "error + 'a \<Rightarrow> ('a \<Rightarrow> error + 'b) \<Rightarrow> error + 'b" where
  "bind_err r f = (case r of Inl e \<Rightarrow> Inl e | Inr a \<Rightarrow> f a)"

definition dot :: "vec \<Rightarrow> vec \<Rightarrow> real" where
  "dot r z = sum_list (map2 (*) r z)"

definition mat_vec :: "mat \<Rightarrow> vec \<Rightarrow> vec" where
  "mat_vec A z = map (\<lambda>r. dot r z) A"

definition vec_add :: "vec \<Rightarrow> vec \<Rightarrow> vec" where
  "vec_add a b = map2 (+) a b"

text \<open>The affine model \<open>A z + B u + C\<close> of the dynamics constraint, evaluated at numbers.\<close>

definition affine_model :: "mat \<times> mat \<times> vec \<Rightarrow> vec \<Rightarrow> vec \<Rightarrow> vec" where
  "affine_model m z u =
     (case m of (A, B, C) \<Rightarrow> vec_add (vec_add (mat_vec A z) (mat_vec B u)) C)"

subsection \<open>class Node\<close>

record Node =
  node_x :: real
  node_y :: real
  node_yaw :: real
  node_v :: real
  node_direct :: real

definition limit_input :: "real \<Rightarrow> real" where
  "limit_input delta =
     (if delta \<ge> P_MAX_STEER then P_MAX_STEER
      else if delta \<le> - P_MAX_STEER then - P_MAX_STEER
      else delta)"

definition Node_update :: "Node \<Rightarrow> real \<Rightarrow> real \<Rightarrow> real \<Rightarrow> Node" where
  "Node_update n a delta0 direct =
     (let delta = limit_input delta0;
          x' = node_x n + node_v n * cos (node_yaw n) * P_dt;
          y' = node_y n + node_v n * sin (node_yaw n) * P_dt;
          yaw' = node_yaw n + node_v n / P_WB * tan delta * P_dt;
          v' = node_v n + direct * a * P_dt
      in \<lparr>node_x = x', node_y = y', node_yaw = yaw', node_v = v', node_direct = direct\<rparr>)"

subsection \<open>pi\_2\_pi and the linearised model\<close>

definition pi_2_pi :: "real \<Rightarrow> real" where
  "pi_2_pi angle =
     (if angle > pi then angle - 2 * pi
      else if angle < - pi then angle + 2 * pi
      else angle)"

definition calc_linear_discrete_model :: "real \<Rightarrow> real \<Rightarrow> real \<Rightarrow> mat \<times> mat \<times> vec" where
  "calc_linear_discrete_model v phi delta =
     (let A = [[1, 0, P_dt * cos phi, - P_dt * v * sin phi],
               [0, 1, P_dt * sin phi, P_dt * v * cos phi],
               [0, 0, 1, 0],
               [0, 0, P_dt * tan delta / P_WB, 1]];
          B = [[0, 0],
               [0, 0],
               [P_dt, 0],
               [0, P_dt * v / (P_WB * (cos delta)\<^sup>2)]];
          C = [P_dt * v * sin phi * phi,
               - P_dt * v * cos phi * phi,
               0,
               - P_dt * v * delta / (P_WB * (cos delta)\<^sup>2)]
      in (A, B, C))"

subsection \<open>Python and numpy primitives\<close>

text \<open>List indexing with an integer: a negative index counts from the end.\<close>

definition py_index :: "'a list \<Rightarrow> int \<Rightarrow> error + 'a" where
  "py_index xs i =
     (let k = (if i < 0 then i + int (length xs) else i)
      in if k < 0 \<or> int (length xs) \<le> k then Inl IndexError else Inr (xs ! nat k))"

text \<open>The slice \<open>xs[i:j]\<close>: both bounds are clipped to the list, never an error.\<close>

definition py_slice :: "'a list \<Rightarrow> int \<Rightarrow> int \<Rightarrow> 'a list" where
  "py_slice xs i j =
     (let n = int (length xs);
          lo = (if i < 0 then max (i + n) 0 else min i n);
          hi = (if j < 0 then max (j + n) 0 else min j n)
      in take (nat (hi - lo)) (drop (nat lo) xs))"

text \<open>
  An elementwise numpy operation on two one-dimensional arrays: equal lengths, or one of
  them of length 1 (broadcast); any other pair of shapes raises ValueError.
\<close>

definition np_elementwise :: "(real \<Rightarrow> real \<Rightarrow> real) \<Rightarrow> vec \<Rightarrow> vec \<Rightarrow> error + vec" where
  "np_elementwise f a b =
     (if length a = length b then Inr (map2 f a b)
      else if length a = 1 then Inr (map (f (hd a)) b)
      else if length b = 1 then Inr (map (\<lambda>x. f x (hd b)) a)
      else Inl ValueError)"

definition np_hypot :: "vec \<Rightarrow> vec \<Rightarrow> error + vec" where
  "np_hypot a b = np_elementwise (\<lambda>x y. sqrt (x\<^sup>2 + y\<^sup>2)) a b"

text \<open>\<open>np.argmin\<close>: the first index of a least element; ValueError on an empty array.\<close>

fun argmin_list :: "vec \<Rightarrow> nat" where
  "argmin_list [] = 0"
| "argmin_list [x] = 0"
| "argmin_list (x # y # ys) =
     (let j = argmin_list (y # ys) in if x \<le> (y # ys) ! j then 0 else Suc j)"

definition np_argmin :: "vec \<Rightarrow> error + nat" where
  "np_argmin d = (if d = [] then Inl ValueError else Inr (argmin_list d))"

text \<open>\<open>math.atan2(y, x)\<close>, the angle of the point \<open>(x, y)\<close> in \<open>[-\<pi>, \<pi>]\<close>.\<close>

definition atan2 :: "real \<Rightarrow> real \<Rightarrow> real" where
  "atan2 y x =
     (if x > 0 then arctan (y / x)
      else if x < 0 then (if y \<ge> 0 then arctan (y / x) + pi else arctan (y / x) - pi)
      else if y > 0 then pi / 2
      else if y < 0 then - (pi / 2)
      else 0)"

text \<open>
  Python 3 \<open>round\<close> on a float: to the nearest integer, a tie to the even one.
\<close>

definition py_round :: "real \<Rightarrow> int" where
  "py_round r =
     (let f = \<lfloor>r\<rfloor>; d = r - of_int f
      in if d < 1 / 2 then f
         else if d > 1 / 2 then f + 1
         else if even f then f else f + 1)"

text \<open>A two-dimensional numpy array is the list of its rows.\<close>

definition np_zeros :: "nat \<Rightarrow> nat \<Rightarrow> mat" where
  "np_zeros r c = replicate r (replicate c 0)"

definition mat_get :: "mat \<Rightarrow> nat \<Rightarrow> nat \<Rightarrow> error + real" where
  "mat_get m r c = (if r < length m \<and> c < length (m ! r) then Inr (m ! r ! c) else Inl IndexError)"

definition mat_set :: "mat \<Rightarrow> nat \<Rightarrow> nat \<Rightarrow> real \<Rightarrow> error + mat" where
  "mat_set m r c v =
     (if r < length m \<and> c < length (m ! r) then Inr (m[r := (m ! r)[c := v]])
      else Inl IndexError)"

definition mat_row :: "mat \<Rightarrow> nat \<Rightarrow> error + vec" where
  "mat_row m r = (if r < length m then Inr (m ! r) else Inl IndexError)"

text \<open>A \<open>for\<close> loop over a list of items, a body that may raise, and the loop's state.\<close>

fun for_loop :: "'a list \<Rightarrow> ('a \<Rightarrow> 's \<Rightarrow> error + 's) \<Rightarrow> 's \<Rightarrow> error + 's" where
  "for_loop [] body s = Inr s"
| "for_loop (i # is) body s =
     (case body i s of Inl e \<Rightarrow> Inl e | Inr s' \<Rightarrow> for_loop is body s')"

subsection \<open>class PATH\<close>

record PATH =
  p_cx :: vec
  p_cy :: vec
  p_cyaw :: vec
  p_ck :: vec
  p_length :: int
  ind_old :: int

definition PATH_init :: "vec \<Rightarrow> vec \<Rightarrow> vec \<Rightarrow> vec \<Rightarrow> PATH" where
  "PATH_init cx cy cyaw ck =
     \<lparr>p_cx = cx, p_cy = cy, p_cyaw = cyaw, p_ck = ck, p_length = int (length cx), ind_old = 0\<rparr>"

text \<open>
  \<open>nearest_index\<close> returns the path object after the call together with the result or the
  error: the cursor is assigned after \<open>np.argmin\<close> and before the three indexed reads, so
  an error of those reads leaves the new cursor in place.
\<close>

definition nearest_index :: "PATH \<Rightarrow> Node \<Rightarrow> PATH \<times> (error + int \<times> real)" where
  "nearest_index p node =
     (let dx = map (\<lambda>x. node_x node - x)
                 (py_slice (p_cx p) (ind_old p) (ind_old p + P_N_IND_SEARCH));
          dy = map (\<lambda>y. node_y node - y)
                 (py_slice (p_cy p) (ind_old p) (ind_old p + P_N_IND_SEARCH))
      in case bind_err (np_hypot dx dy) (\<lambda>ds. bind_err (np_argmin ds) (\<lambda>i. Inr (ds, i))) of
           Inl e \<Rightarrow> (p, Inl e)
         | Inr (ds, i) \<Rightarrow>
             (let dist_min = ds ! i;
                  ind = int i + ind_old p;
                  p' = p\<lparr>ind_old := ind\<rparr>
              in (p',
                  bind_err (py_index (p_cx p') ind) (\<lambda>cxi.
                  bind_err (py_index (p_cy p') ind) (\<lambda>cyi.
                  bind_err (py_index (p_cyaw p') ind) (\<lambda>cyawi.
                    let dxl = cxi - node_x node;
                        dyl = cyi - node_y node;
                        angle = pi_2_pi (cyawi - atan2 dyl dxl)
                    in Inr (ind, if angle < 0 then dist_min * (- 1) else dist_min)))))))"

text \<open>The cursor values after each of a sequence of calls on the same object.\<close>

fun cursor_trace :: "PATH \<Rightarrow> Node list \<Rightarrow> int list" where
  "cursor_trace p [] = []"
| "cursor_trace p (n # ns) =
     (let p' = fst (nearest_index p n) in ind_old p' # cursor_trace p' ns)"

text \<open>
  The data model's well-formedness of a path: the sample arrays are parallel (one entry per
  sample), not empty, and \<open>length\<close> is their length, as \<open>__init__\<close> sets it.
\<close>

definition wf_PATH :: "PATH \<Rightarrow> bool" where
  "wf_PATH p \<longleftrightarrow> p_cx p \<noteq> [] \<and> length (p_cy p) = length (p_cx p) \<and>
     length (p_cyaw p) = length (p_cx p) \<and> p_length p = int (length (p_cx p))"

subsection \<open>calc\_speed\_profile\<close>

text \<open>One pass of the loop body; the state is \<open>(direction, speed_profile)\<close>.\<close>

definition speed_step ::
  "vec \<Rightarrow> vec \<Rightarrow> vec \<Rightarrow> real \<Rightarrow> nat \<Rightarrow> real \<times> vec \<Rightarrow> error + real \<times> vec" where
  "speed_step cx cy cyaw target_speed i st =
     (case st of (direction, speed_profile) \<Rightarrow>
        bind_err (py_index cx (int i + 1)) (\<lambda>cx1.
        bind_err (py_index cx (int i)) (\<lambda>cx0.
        bind_err (py_index cy (int i + 1)) (\<lambda>cy1.
        bind_err (py_index cy (int i)) (\<lambda>cy0.
          let dx = cx1 - cx0;
              dy = cy1 - cy0;
              move_direction = atan2 dy dx
          in bind_err
               (if dx \<noteq> 0 \<and> dy \<noteq> 0
                then bind_err (py_index cyaw (int i)) (\<lambda>yaw_i.
                       let dangle = \<bar>pi_2_pi (move_direction - yaw_i)\<bar>
                       in Inr (if dangle \<ge> pi / 4 then - 1 else 1))
                else Inr direction)
               (\<lambda>direction'.
                  Inr (direction',
                       speed_profile[i := (if direction' \<noteq> 1 then - target_speed
                                           else target_speed)])))))))"

definition calc_speed_profile :: "vec \<Rightarrow> vec \<Rightarrow> vec \<Rightarrow> real \<Rightarrow> error + vec" where
  "calc_speed_profile cx cy cyaw target_speed =
     bind_err
       (for_loop [0..<length cx - 1] (speed_step cx cy cyaw target_speed)
          (1, replicate (length cx) target_speed))
       (\<lambda>st. case st of (direction, speed_profile) \<Rightarrow>
          if speed_profile = [] then Inl IndexError
          else Inr (speed_profile[length speed_profile - 1 := 0]))"

subsection \<open>calc\_optimal\_trajectory\_in\_T\_step\<close>

text \<open>
  Here a float decides an index through \<open>round\<close>, so the rounding of the float operations
  before it matters: \<open>travel\<close> is a running sum of doubles. The three operations are
  therefore parameters of this function. \<open>fl_add\<close>, \<open>fl_mul\<close> and \<open>fl_div\<close> stand for the
  double-precision \<open>+\<close>, \<open>*\<close> and \<open>/\<close> on the doubles that their arguments denote (\<open>P_dt\<close>
  denotes the double written \<open>0.2\<close>); the result is \<open>None\<close> when it overflows to an infinity.
  An infinity stays one through \<open>travel += ...\<close> and \<open>travel / dl\<close>, and \<open>round\<close> raises
  OverflowError on it.
\<close>

record float_ops =
  fl_add :: "real \<Rightarrow> real \<Rightarrow> real option"
  fl_mul :: "real \<Rightarrow> real \<Rightarrow> real option"
  fl_div :: "real \<Rightarrow> real \<Rightarrow> real option"

text \<open>An operation on values that may already be infinite.\<close>

definition fl_lift ::
  "(real \<Rightarrow> real \<Rightarrow> real option) \<Rightarrow> real option \<Rightarrow> real option \<Rightarrow> real option" where
  "fl_lift g a b =
     (case a of None \<Rightarrow> None | Some x \<Rightarrow> (case b of None \<Rightarrow> None | Some y \<Rightarrow> g x y))"

text \<open>The operations without rounding, for runs in which every operation is exact.\<close>

definition exact_ops :: float_ops where
  "exact_ops = \<lparr>fl_add = (\<lambda>x y. Some (x + y)), fl_mul = (\<lambda>x y. Some (x * y)),
                fl_div = (\<lambda>x y. Some (x / y))\<rparr>"

text \<open>
  What the statements below need of the operations, and what rounding to the nearest double
  gives: a sum or product of numbers that are not negative is not negative, nor is the
  quotient of such a number by a positive one.
\<close>

definition keeps_sign :: "float_ops \<Rightarrow> bool" where
  "keeps_sign f \<longleftrightarrow>
     (\<forall>x y r. 0 \<le> x \<and> 0 \<le> y \<and> fl_add f x y = Some r \<longrightarrow> 0 \<le> r) \<and>
     (\<forall>x y r. 0 \<le> x \<and> 0 \<le> y \<and> fl_mul f x y = Some r \<longrightarrow> 0 \<le> r) \<and>
     (\<forall>x y r. 0 \<le> x \<and> 0 < y \<and> fl_div f x y = Some r \<longrightarrow> 0 \<le> r)"

text \<open>One pass of the horizon loop; the state is \<open>(travel, z_opt, d_opt)\<close>.\<close>

definition traj_step ::
  "float_ops \<Rightarrow> Node \<Rightarrow> PATH \<Rightarrow> vec \<Rightarrow> real \<Rightarrow> int \<Rightarrow> int \<Rightarrow> nat \<Rightarrow> real option \<times> mat \<times> mat
     \<Rightarrow> error + real option \<times> mat \<times> mat" where
  "traj_step f node ref_path sp dl ind len i st =
     (case st of (travel, z_opt, d_opt) \<Rightarrow>
        let travel' = fl_lift (fl_add f) travel (fl_mul f \<bar>node_v node\<bar> P_dt)
        in if dl = 0 then Inl ZeroDivisionError
           else
             (case fl_lift (fl_div f) travel' (Some dl) of
                None \<Rightarrow> Inl OverflowError
              | Some q \<Rightarrow>
                  let dind = py_round q;
                      index = min (ind + dind) (len - 1)
                  in bind_err (py_index (p_cx ref_path) index) (\<lambda>a.
                     bind_err (mat_set z_opt 0 i a) (\<lambda>z1.
                     bind_err (py_index (p_cy ref_path) index) (\<lambda>b.
                     bind_err (mat_set z1 1 i b) (\<lambda>z2.
                     bind_err (py_index sp index) (\<lambda>c.
                     bind_err (mat_set z2 2 i c) (\<lambda>z3.
                     bind_err (py_index (p_cyaw ref_path) index) (\<lambda>d.
                     bind_err (mat_set z3 3 i d) (\<lambda>z4.
                     bind_err (mat_set d_opt 0 i 0) (\<lambda>d1.
                       Inr (travel', z4, d1))))))))))))"

definition calc_optimal_trajectory_in_T_step ::
  "float_ops \<Rightarrow> Node \<Rightarrow> PATH \<Rightarrow> vec \<Rightarrow> real \<Rightarrow> PATH \<times> (error + mat \<times> int \<times> mat)" where
  "calc_optimal_trajectory_in_T_step f node ref_path sp dl =
     (let z_opt = np_zeros P_NX (P_T + 1);
          d_opt = np_zeros 1 (P_T + 1);
          len = p_length ref_path
      in case nearest_index ref_path node of
           (ref_path', Inl e) \<Rightarrow> (ref_path', Inl e)
         | (ref_path', Inr (ind, dist_min)) \<Rightarrow>
             (ref_path',
              bind_err (py_index (p_cx ref_path') ind) (\<lambda>a.
              bind_err (mat_set z_opt 0 0 a) (\<lambda>z1.
              bind_err (py_index (p_cy ref_path') ind) (\<lambda>b.
              bind_err (mat_set z1 1 0 b) (\<lambda>z2.
              bind_err (py_index sp ind) (\<lambda>c.
              bind_err (mat_set z2 2 0 c) (\<lambda>z3.
              bind_err (py_index (p_cyaw ref_path') ind) (\<lambda>d.
              bind_err (mat_set z3 3 0 d) (\<lambda>z4.
              bind_err (mat_set d_opt 0 0 0) (\<lambda>d1.
              bind_err (for_loop [0..<P_T + 1] (traj_step f node ref_path' sp dl ind len)
                          (Some 0, z4, d1))
                (\<lambda>st. case st of (travel, z_opt', d_opt') \<Rightarrow>
                   Inr (z_opt', ind, d_opt')))))))))))))"

text \<open>
  The cumulative travel after \<open>k\<close> increments by \<open>|v| * dt\<close>, and the quotient \<open>travel / dl\<close>
  that horizon step \<open>i\<close> rounds: its travel has been incremented \<open>i + 1\<close> times, step 0
  included. The statements about the look-ahead refer to these.
\<close>

fun travel_after :: "float_ops \<Rightarrow> real \<Rightarrow> nat \<Rightarrow> real option" where
  "travel_after f v 0 = Some 0"
| "travel_after f v (Suc k) = fl_lift (fl_add f) (travel_after f v k) (fl_mul f \<bar>v\<bar> P_dt)"

definition look_ahead :: "float_ops \<Rightarrow> real \<Rightarrow> real \<Rightarrow> nat \<Rightarrow> real option" where
  "look_ahead f v dl i = fl_lift (fl_div f) (travel_after f v (Suc i)) (Some dl)"

subsection \<open>predict\_model\<close>

text \<open>
  Arrays are objects: a store lists the arrays that exist, and a reference is a position in
  it. A new array gets the next free position. \<open>predict_model\<close> receives the reference of
  \<open>z_opt\<close>, creates \<open>z_bar = z_opt * 0.0\<close> and writes into \<open>z_bar\<close> only.
\<close>

type_synonym store = "mat list"

definition store_new :: "store \<Rightarrow> mat \<Rightarrow> store \<times> nat" where
  "store_new h m = (h @ [m], length h)"

definition store_set :: "store \<Rightarrow> nat \<Rightarrow> nat \<Rightarrow> nat \<Rightarrow> real \<Rightarrow> error + store" where
  "store_set h p r c v = bind_err (mat_set (h ! p) r c v) (\<lambda>m. Inr (h[p := m]))"

text \<open>One pass of the simulation loop over \<open>zip(a, delta, range(1, T + 1))\<close>.\<close>

definition predict_step ::
  "nat \<Rightarrow> real \<times> real \<times> nat \<Rightarrow> Node \<times> store \<Rightarrow> error + Node \<times> store" where
  "predict_step z_bar item st =
     (case item of (ai, di, i) \<Rightarrow>
      case st of (node, h) \<Rightarrow>
        let node' = Node_update node ai di 1
        in bind_err (store_set h z_bar 0 i (node_x node')) (\<lambda>h1.
           bind_err (store_set h1 z_bar 1 i (node_y node')) (\<lambda>h2.
           bind_err (store_set h2 z_bar 2 i (node_v node')) (\<lambda>h3.
           bind_err (store_set h3 z_bar 3 i (node_yaw node')) (\<lambda>h4.
             Inr (node', h4))))))"

definition predict_model :: "store \<Rightarrow> vec \<Rightarrow> vec \<Rightarrow> vec \<Rightarrow> nat \<Rightarrow> error + store \<times> nat" where
  "predict_model h z0 a delta z_opt =
     (case store_new h (map (map (\<lambda>x. x * 0)) (h ! z_opt)) of (h0, z_bar) \<Rightarrow>
        bind_err (for_loop [0..<length z0] (\<lambda>i h'. store_set h' z_bar i 0 (z0 ! i)) h0) (\<lambda>h1.
        bind_err (py_index z0 0) (\<lambda>x0.
        bind_err (py_index z0 1) (\<lambda>y0.
        bind_err (py_index z0 2) (\<lambda>v0.
        bind_err (py_index z0 3) (\<lambda>yaw0.
          let node = \<lparr>node_x = x0, node_y = y0, node_yaw = yaw0, node_v = v0, node_direct = 1\<rparr>
          in bind_err (for_loop (zip a (zip delta [1..<P_T + 1])) (predict_step z_bar) (node, h1))
               (\<lambda>st. Inr (snd st, z_bar))))))))"

text \<open>
  The call as \<open>linear_mpc_control\<close> uses it, from the array \<open>z_opt\<close> to the array \<open>z_bar\<close>:
  the same function on a store that holds \<open>z_opt\<close> alone.
\<close>

definition predict_model_value :: "vec \<Rightarrow> vec \<Rightarrow> vec \<Rightarrow> mat \<Rightarrow> error + mat" where
  "predict_model_value z0 a delta z_opt =
     bind_err (predict_model [z_opt] z0 a delta 0) (\<lambda>r. case r of (h, z_bar) \<Rightarrow> Inr (h ! z_bar))"

subsection \<open>solve\_linear\_mpc\<close>

text \<open>
  Modelled from the spec: the QP solver boundary (section 6 of the specification; cvxpy and
  OSQP are external libraries). A problem is given by what the source builds it from: the
  linearised model of each horizon step, the reference \<open>z_opt\<close> and the initial state
  \<open>z0\<close>; the weights and bounds are the constants of \<open>P\<close>. A solver maps a problem to a
  status and the values of the variables \<open>z\<close> (4 rows) and \<open>u\<close> (2 rows).
\<close>

datatype status = OPTIMAL | OPTIMAL_INACCURATE | INFEASIBLE | SOLVER_ERROR

record qp =
  qp_dynamics :: "(mat \<times> mat \<times> vec) list"
  qp_z_opt :: mat
  qp_z0 :: vec

record solution =
  sol_status :: status
  z_value :: mat
  u_value :: mat

type_synonym solver = "qp \<Rightarrow> solution"

text \<open>The six results \<open>(oa, odelta, ox, oy, oyaw, ov)\<close>, each an array or \<open>None\<close>.\<close>

type_synonym outputs =
  "vec option \<times> vec option \<times> vec option \<times> vec option \<times> vec option \<times> vec option"

text \<open>
  The column \<open>m[:, c]\<close> of a two-dimensional array: IndexError when the array has no column
  \<open>c\<close>. The empty list of rows stands for the array of shape \<open>(0, 0)\<close>.
\<close>

definition mat_col :: "mat \<Rightarrow> nat \<Rightarrow> error + vec" where
  "mat_col m c =
     (if m \<noteq> [] \<and> list_all (\<lambda>row. c < length row) m then Inr (map (\<lambda>row. row ! c) m)
      else Inl IndexError)"

text \<open>
  The shape rule of cvxpy where a constant vector meets a column of the variable \<open>z\<close>, which
  has \<open>NX\<close> entries (in \<open>z_opt[:, t] - z[:, t]\<close> and in \<open>z[:, 0] == z0\<close>): the constant has
  \<open>NX\<close> entries, or a single entry, which is broadcast; any other length raises ValueError.
\<close>

definition state_shaped :: "vec \<Rightarrow> error + unit" where
  "state_shaped c = (if length c = P_NX \<or> length c = 1 then Inr () else Inl ValueError)"

text \<open>The tracking term of horizon step \<open>t\<close>, \<open>quad_form(z_opt[:, t] - z[:, t], Q)\<close>.\<close>

definition tracking_term :: "mat \<Rightarrow> nat \<Rightarrow> error + unit" where
  "tracking_term z_opt t = bind_err (mat_col z_opt t) state_shaped"

text \<open>
  One pass of the loop over \<open>t = 0, ..., T - 1\<close> that builds the problem: the tracking term
  (for \<open>t \<noteq> 0\<close>), then the linearised model of the step, in the order of the source. The
  state is the list of the models built so far.
\<close>

definition qp_stage ::
  "mat \<Rightarrow> mat \<Rightarrow> mat \<Rightarrow> nat \<Rightarrow> (mat \<times> mat \<times> vec) list \<Rightarrow> error + (mat \<times> mat \<times> vec) list" where
  "qp_stage z_opt z_bar d_opt t ms =
     bind_err (if t \<noteq> 0 then tracking_term z_opt t else Inr ()) (\<lambda>u.
     bind_err (mat_get z_bar 2 t) (\<lambda>v.
     bind_err (mat_get z_bar 3 t) (\<lambda>phi.
     bind_err (mat_get d_opt 0 t) (\<lambda>delta.
       Inr (ms @ [calc_linear_discrete_model v phi delta])))))"

text \<open>
  The construction of the problem, up to the call of the solver: the loop, the terminal
  tracking term \<open>z_opt[:, T] - z[:, T]\<close> and the initial condition \<open>z[:, 0] == z0\<close>. Every
  index and shape error of the source before \<open>prob.solve\<close> is a result \<open>Inl\<close> here.
\<close>

definition build_problem :: "mat \<Rightarrow> mat \<Rightarrow> vec \<Rightarrow> mat \<Rightarrow> error + qp" where
  "build_problem z_opt z_bar z0 d_opt =
     bind_err (for_loop [0..<P_T] (qp_stage z_opt z_bar d_opt) []) (\<lambda>ms.
     bind_err (tracking_term z_opt P_T) (\<lambda>u.
     bind_err (state_shaped z0) (\<lambda>w.
       Inr \<lparr>qp_dynamics = ms, qp_z_opt = z_opt, qp_z0 = z0\<rparr>)))"

text \<open>The result is what was printed and the returned tuple, or the error raised.\<close>

definition solve_linear_mpc ::
  "solver \<Rightarrow> mat \<Rightarrow> mat \<Rightarrow> vec \<Rightarrow> mat \<Rightarrow> string list \<times> (error + outputs)" where
  "solve_linear_mpc solver z_opt z_bar z0 d_opt =
     (case build_problem z_opt z_bar z0 d_opt of
        Inl e \<Rightarrow> ([], Inl e)
      | Inr problem \<Rightarrow>
          let prob = solver problem
          in if sol_status prob = OPTIMAL \<or> sol_status prob = OPTIMAL_INACCURATE
             then ([],
                   bind_err (mat_row (z_value prob) 0) (\<lambda>ox.
                   bind_err (mat_row (z_value prob) 1) (\<lambda>oy.
                   bind_err (mat_row (z_value prob) 2) (\<lambda>ov.
                   bind_err (mat_row (z_value prob) 3) (\<lambda>oyaw.
                   bind_err (mat_row (u_value prob) 0) (\<lambda>oa.
                   bind_err (mat_row (u_value prob) 1) (\<lambda>odelta.
                     Inr (Some oa, Some odelta, Some ox, Some oy, Some oyaw, Some ov))))))))
             else ([''Cannot solve linear mpc''],
                   Inr (None, None, None, None, None, None)))"

subsection \<open>linear\_mpc\_control\<close>

text \<open>
  One pass of the loop body: predict, solve, and the change \<open>du\<close> of the controls.
  \<open>oa - poa\<close> with \<open>oa = None\<close> raises TypeError. A pass that raises nothing yields the new
  control arrays, the returned tuple and \<open>du\<close>.
\<close>

definition mpc_pass ::
  "solver \<Rightarrow> mat \<Rightarrow> vec \<Rightarrow> mat \<Rightarrow> vec \<Rightarrow> vec
     \<Rightarrow> string list \<times> (error + vec \<times> vec \<times> outputs \<times> real)" where
  "mpc_pass solver z_opt z0 d_opt oa od =
     (case predict_model_value z0 oa od z_opt of
        Inl e \<Rightarrow> ([], Inl e)
      | Inr z_bar \<Rightarrow>
          (let poa = oa; pod = od
           in case solve_linear_mpc solver z_opt z_bar z0 d_opt of
                (out, Inl e) \<Rightarrow> (out, Inl e)
              | (out, Inr (oa', od', ox, oy, oyaw, ov)) \<Rightarrow>
                  (out,
                   case oa' of
                     None \<Rightarrow> Inl TypeError
                   | Some noa \<Rightarrow>
                       bind_err (np_elementwise (-) noa poa) (\<lambda>da.
                         case od' of
                           None \<Rightarrow> Inl TypeError
                         | Some nod \<Rightarrow>
                             bind_err (np_elementwise (-) nod pod) (\<lambda>dd.
                               let du = sum_list (map abs da) + sum_list (map abs dd)
                               in Inr (noa, nod, (oa', od', ox, oy, oyaw, ov), du))))))"

text \<open>
  The \<open>for\<close> loop with its \<open>break\<close> and its \<open>else\<close> branch; \<open>n\<close> passes remain, and
  \<open>latest\<close> is the tuple of the latest pass.
\<close>

fun mpc_iterations ::
  "nat \<Rightarrow> solver \<Rightarrow> mat \<Rightarrow> vec \<Rightarrow> mat \<Rightarrow> vec \<Rightarrow> vec \<Rightarrow> outputs option
     \<Rightarrow> string list \<times> (error + outputs)" where
  "mpc_iterations 0 solver z_opt z0 d_opt oa od latest =
     ([''Iterative is max iter''],
      case latest of None \<Rightarrow> Inl UnboundLocalError | Some res \<Rightarrow> Inr res)"
| "mpc_iterations (Suc n) solver z_opt z0 d_opt oa od latest =
     (case mpc_pass solver z_opt z0 d_opt oa od of
        (out, Inl e) \<Rightarrow> (out, Inl e)
      | (out, Inr (noa, nod, res, du)) \<Rightarrow>
          if du \<le> P_DU_TH then (out, Inr res)
          else (case mpc_iterations n solver z_opt z0 d_opt noa nod (Some res) of
                  (out', r) \<Rightarrow> (out @ out', r)))"

definition linear_mpc_control ::
  "solver \<Rightarrow> mat \<Rightarrow> vec \<Rightarrow> mat \<Rightarrow> vec option \<Rightarrow> vec option
     \<Rightarrow> string list \<times> (error + outputs)" where
  "linear_mpc_control solver z_opt z0 d_opt oa od =
     (case (oa, od) of
        (Some a, Some d) \<Rightarrow> mpc_iterations P_MAX_ITER solver z_opt z0 d_opt a d None
      | _ \<Rightarrow> mpc_iterations P_MAX_ITER solver z_opt z0 d_opt
               (replicate P_T 0) (replicate P_T 0) None)"

text \<open>
  The pass number \<open>k + 1\<close> of the loop from the controls \<open>(oa, od)\<close>, when no earlier pass
  raises: the passes chained without the convergence test.
\<close>

fun mpc_candidate ::
  "nat \<Rightarrow> solver \<Rightarrow> mat \<Rightarrow> vec \<Rightarrow> mat \<Rightarrow> vec \<Rightarrow> vec
     \<Rightarrow> error + vec \<times> vec \<times> outputs \<times> real" where
  "mpc_candidate 0 solver z_opt z0 d_opt oa od = snd (mpc_pass solver z_opt z0 d_opt oa od)"
| "mpc_candidate (Suc k) solver z_opt z0 d_opt oa od =
     (case snd (mpc_pass solver z_opt z0 d_opt oa od) of
        Inl e \<Rightarrow> Inl e
      | Inr (noa, nod, res, du) \<Rightarrow> mpc_candidate k solver z_opt z0 d_opt noa nod)"

text \<open>The change of the controls in a pass is above the threshold.\<close>

definition not_converged :: "error + vec \<times> vec \<times> outputs \<times> real \<Rightarrow> bool" where
  "not_converged r = (case r of Inl e \<Rightarrow> False | Inr (noa, nod, res, du) \<Rightarrow> du > P_DU_TH)"

text \<open>The controls the loop starts from: the warm start, or zeros.\<close>

definition seed_controls :: "vec option \<Rightarrow> vec option \<Rightarrow> vec \<times> vec" where
  "seed_controls oa od =
     (case (oa, od) of
        (Some a, Some d) \<Rightarrow> (a, d)
      | _ \<Rightarrow> (replicate P_T 0, replicate P_T 0))"

subsection \<open>main: one tick of the simulation loop\<close>

record sim =
  sim_node :: Node
  sim_path :: PATH
  sim_oa :: "vec option"
  sim_odelta :: "vec option"
  sim_time :: real
  sim_x :: vec
  sim_y :: vec
  sim_yaw :: vec
  sim_v :: vec
  sim_t :: vec
  sim_d :: vec
  sim_a :: vec

text \<open>
  The body of the \<open>while\<close> loop from the reference extraction to the appends; the goal test
  and the plotting follow it.
\<close>

definition main_tick ::
  "float_ops \<Rightarrow> solver \<Rightarrow> vec \<Rightarrow> sim \<Rightarrow> string list \<times> (error + sim)" where
  "main_tick f solver sp s =
     (case calc_optimal_trajectory_in_T_step f (sim_node s) (sim_path s) sp 1 of
        (ref_path, Inl e) \<Rightarrow> ([], Inl e)
      | (ref_path, Inr (z_opt, target_ind, d_opt)) \<Rightarrow>
          (let node = sim_node s;
               z0 = [node_x node, node_y node, node_v node, node_yaw node]
           in case linear_mpc_control solver z_opt z0 d_opt (sim_oa s) (sim_odelta s) of
                (out, Inl e) \<Rightarrow> (out, Inl e)
              | (out, Inr (oa, odelta, ox, oy, oyaw, ov)) \<Rightarrow>
                  (out,
                   bind_err
                     (case odelta of
                        None \<Rightarrow> Inr (0, 0)
                      | Some ds \<Rightarrow>
                          bind_err (py_index ds 0) (\<lambda>di.
                            case oa of
                              None \<Rightarrow> Inl TypeError
                            | Some a1 \<Rightarrow> bind_err (py_index a1 0) (\<lambda>ai. Inr (di, ai))))
                     (\<lambda>c. case c of (di, ai) \<Rightarrow>
                        let node' = Node_update node ai di 1;
                            time' = sim_time s + P_dt
                        in Inr (s\<lparr>sim_node := node', sim_path := ref_path, sim_oa := oa,
                                  sim_odelta := odelta, sim_time := time',
                                  sim_x := sim_x s @ [node_x node'],
                                  sim_y := sim_y s @ [node_y node'],
                                  sim_yaw := sim_yaw s @ [node_yaw node'],
                                  sim_v := sim_v s @ [node_v node'],
                                  sim_t := sim_t s @ [time'],
                                  sim_d := sim_d s @ [di],
                                  sim_a := sim_a s @ [ai]\<rparr>)))))"

text \<open>
  Three solvers for concrete runs: one that reports infeasible, one that returns zeros with
  the status \<open>optimal_inaccurate\<close>, and one whose acceleration grows by 1 from pass to pass
  (it reads the predicted speed of step 1 off the linearised model), so that the loop never
  converges.
\<close>

definition infeasible_solver :: solver where
  "infeasible_solver prob = \<lparr>sol_status = INFEASIBLE, z_value = [], u_value = []\<rparr>"

definition inaccurate_solver :: solver where
  "inaccurate_solver prob =
     \<lparr>sol_status = OPTIMAL_INACCURATE, z_value = np_zeros P_NX (P_T + 1),
      u_value = np_zeros P_NU P_T\<rparr>"


text \<open>
  The vehicle driven through a list of controls \<open>(a, delta)\<close> by \<open>Node.update\<close> in forward
  gear; the statements about \<open>predict_model\<close> compare its columns with these states.
\<close>

definition drive :: "Node \<Rightarrow> (real \<times> real) list \<Rightarrow> Node" where
  "drive node us = foldl (\<lambda>n u. Node_update n (fst u) (snd u) 1) node us"

text \<open>Column \<open>i\<close> of the reference holds the path sample number \<open>k\<close>.\<close>

definition column_is :: "mat \<Rightarrow> nat \<Rightarrow> PATH \<Rightarrow> vec \<Rightarrow> nat \<Rightarrow> bool" where
  "column_is z_opt i p sp k \<longleftrightarrow>
     z_opt ! 0 ! i = p_cx p ! k \<and> z_opt ! 1 ! i = p_cy p ! k \<and>
     z_opt ! 2 ! i = sp ! k \<and> z_opt ! 3 ! i = p_cyaw p ! k"

section \<open>Properties\<close>

lemma limit_input_id: "\<bar>delta\<bar> \<le> P_MAX_STEER \<Longrightarrow> limit_input delta = delta"
  by (auto simp: limit_input_def)

lemma P_MAX_STEER_eq: "P_MAX_STEER = pi / 4"
  by (simp add: P_MAX_STEER_def deg2rad_def)

lemma limit_input_range: "- (pi / 4) \<le> limit_input delta \<and> limit_input delta \<le> pi / 4"
  using pi_gt_zero by (auto simp: limit_input_def P_MAX_STEER_eq)

lemma tan_limit_input_bound: "\<bar>tan (limit_input delta)\<bar> \<le> 1"
proof -
  have r: "- (pi / 4) \<le> limit_input delta" "limit_input delta \<le> pi / 4"
    using limit_input_range by auto
  have b: "- (pi / 2) < - (pi / 4)" "pi / 4 < pi / 2" "- (pi / 2) < limit_input delta"
    "limit_input delta < pi / 2"
    using r pi_gt_zero by linarith+
  have lo: "tan (- (pi / 4)) \<le> tan (limit_input delta)"
    by (rule tan_mono_le [OF b(1) r(1) b(4)])
  have hi: "tan (limit_input delta) \<le> tan (pi / 4)"
    by (rule tan_mono_le [OF b(3) r(2) b(2)])
  from lo hi show ?thesis by (simp add: tan_45)
qed

lemma pi_ge_three: "3 \<le> pi"
proof -
  have "sin (pi / 6) \<le> pi / 6"
    using pi_gt_zero by (intro sin_x_le_x) simp
  then show ?thesis by (simp add: sin_30)
qed

text \<open>
  C2. At an operating point \<open>(v, phi, delta)\<close> with \<open>|delta| \<le> MAX_STEER\<close> and
  \<open>cos delta \<noteq> 0\<close>, the affine model \<open>A z + B u + C\<close> of
  \<open>calc_linear_discrete_model v phi delta\<close>, evaluated at \<open>z = (x, y, v, phi)\<close> and
  \<open>u = (a, delta)\<close>, is the state \<open>(x, y, v, yaw)\<close> that \<open>Node.update(a, delta, 1)\<close>
  produces from that state.
\<close>

theorem linear_model_consistent_at_operating_point:
  assumes "\<bar>delta\<bar> \<le> P_MAX_STEER" and "cos delta \<noteq> 0"
  shows "affine_model (calc_linear_discrete_model v phi delta) [x, y, v, phi] [a, delta] =
         (let n' = Node_update \<lparr>node_x = x, node_y = y, node_yaw = phi, node_v = v,
                                 node_direct = d\<rparr> a delta 1
          in [node_x n', node_y n', node_v n', node_yaw n'])"
  using assms
  by (simp add: affine_model_def calc_linear_discrete_model_def mat_vec_def dot_def
      vec_add_def Node_update_def limit_input_id Let_def tan_def field_simps)

theorem linear_model_consistent_witness:
  "\<bar>0::real\<bar> \<le> P_MAX_STEER \<and> cos (0::real) \<noteq> 0 \<and>
   affine_model (calc_linear_discrete_model 2 0 0) [1, 1, 2, 0] [1, 0] = [1.4, 1, 2.2, 0]"
proof -
  have h1: "\<bar>0::real\<bar> \<le> P_MAX_STEER" by (simp add: P_MAX_STEER_eq)
  have h2: "cos (0::real) \<noteq> 0" by simp
  show ?thesis
    using h1 h2 linear_model_consistent_at_operating_point [OF h1 h2, of 2 0 1 1 1 1]
    by (simp add: Node_update_def limit_input_id Let_def P_dt_def P_WB_def)
qed

text \<open>
  C6, as the code has it. \<open>Node.update\<close> adds \<open>v / WB * tan(limit_input delta) * dt\<close> to the
  yaw and does not wrap the sum. The step is at most \<open>|v| * dt / WB\<close> in magnitude, so the
  yaw stays in \<open>(-\<pi>, \<pi>]\<close> when \<open>|yaw| + |v| * dt / WB < \<pi>\<close>.
\<close>

theorem Node_update_yaw_unwrapped:
  "node_yaw (Node_update n a delta direct) =
     node_yaw n + node_v n / P_WB * tan (limit_input delta) * P_dt \<and>
   \<bar>node_yaw (Node_update n a delta direct) - node_yaw n\<bar> \<le> \<bar>node_v n\<bar> * P_dt / P_WB \<and>
   (\<bar>node_yaw n\<bar> + \<bar>node_v n\<bar> * P_dt / P_WB < pi \<longrightarrow>
      - pi < node_yaw (Node_update n a delta direct) \<and>
      node_yaw (Node_update n a delta direct) \<le> pi)"
proof -
  define s where "s = node_v n / P_WB * tan (limit_input delta) * P_dt"
  define w where "w = \<bar>node_v n\<bar> * P_dt / P_WB"
  have eq: "node_yaw (Node_update n a delta direct) = node_yaw n + s"
    by (simp add: Node_update_def Let_def s_def)
  have w0: "0 \<le> w"
    by (simp add: w_def P_dt_def P_WB_def)
  have "\<bar>s\<bar> = w * \<bar>tan (limit_input delta)\<bar>"
    by (simp add: s_def w_def abs_mult P_dt_def P_WB_def)
  also have "\<dots> \<le> w * 1"
    by (intro mult_left_mono tan_limit_input_bound w0)
  finally have b: "\<bar>s\<bar> \<le> w" by simp
  have "node_yaw (Node_update n a delta direct) = node_yaw n + s \<and>
        \<bar>node_yaw (Node_update n a delta direct) - node_yaw n\<bar> \<le> w \<and>
        (\<bar>node_yaw n\<bar> + w < pi \<longrightarrow>
           - pi < node_yaw (Node_update n a delta direct) \<and>
           node_yaw (Node_update n a delta direct) \<le> pi)"
    using b unfolding eq by auto
  then show ?thesis unfolding s_def w_def .
qed

theorem Node_update_yaw_unwrapped_witness:
  "\<bar>0::real\<bar> + \<bar>5::real\<bar> * P_dt / P_WB < pi \<and>
   - pi < node_yaw (Node_update \<lparr>node_x = 0, node_y = 0, node_yaw = 0, node_v = 5,
                                  node_direct = 1\<rparr> 1 (pi / 4) 1) \<and>
   node_yaw (Node_update \<lparr>node_x = 0, node_y = 0, node_yaw = 0, node_v = 5,
                           node_direct = 1\<rparr> 1 (pi / 4) 1) \<le> pi"
proof -
  have h: "\<bar>0::real\<bar> + \<bar>5::real\<bar> * P_dt / P_WB < pi"
    using pi_ge_three by (simp add: P_dt_def P_WB_def)
  show ?thesis
    using h Node_update_yaw_unwrapped
      [of "\<lparr>node_x = 0, node_y = 0, node_yaw = 0, node_v = 5, node_direct = 1\<rparr>" 1 "pi / 4" 1]
    by simp
qed

text \<open>
  C6 as stated fails: from yaw 3 (inside \<open>(-\<pi>, \<pi>]\<close>) at speed 15 with full steering the
  updated yaw is 4.2, above \<open>\<pi>\<close>.
\<close>

theorem Node_update_yaw_leaves_range:
  "- pi < node_yaw \<lparr>node_x = 0, node_y = 0, node_yaw = 3, node_v = 15, node_direct = 1\<rparr> \<and>
   node_yaw \<lparr>node_x = 0, node_y = 0, node_yaw = 3, node_v = 15, node_direct = 1\<rparr> \<le> pi \<and>
   \<not> node_yaw (Node_update \<lparr>node_x = 0, node_y = 0, node_yaw = 3, node_v = 15,
                              node_direct = 1\<rparr> 0 (pi / 4) 1) \<le> pi"
proof -
  have l: "limit_input (pi / 4) = pi / 4"
    by (simp add: limit_input_def P_MAX_STEER_eq)
  have y: "node_yaw (Node_update \<lparr>node_x = 0, node_y = 0, node_yaw = 3, node_v = 15,
                                   node_direct = 1\<rparr> 0 (pi / 4) 1) = 4.2"
    unfolding Node_update_def Let_def l tan_45
    by (simp add: P_dt_def P_WB_def)
  show ?thesis
    unfolding y using pi_ge_three pi_less_4 by simp
qed

subsection \<open>PATH.nearest\_index\<close>

lemma argmin_list_less: "d \<noteq> [] \<Longrightarrow> argmin_list d < length d"
  by (induction d rule: argmin_list.induct) (auto simp: Let_def)

lemma nearest_index_cursor_mono: "ind_old p \<le> ind_old (fst (nearest_index p n))"
  by (auto simp: nearest_index_def Let_def bind_err_def split: sum.splits prod.splits)

text \<open>
  C8. Over every sequence of \<open>nearest_index\<close> calls on one PATH object (failing calls
  included), the cursor \<open>ind_old\<close> after each call is at least its value before the call:
  the initial cursor followed by the cursors after each call is an ascending list.
\<close>

theorem cursor_never_decreases: "sorted (ind_old p # cursor_trace p ns)"
proof (induction ns arbitrary: p)
  case Nil
  then show ?case by simp
next
  case (Cons n ns)
  have "sorted (ind_old (fst (nearest_index p n)) # cursor_trace (fst (nearest_index p n)) ns)"
    by (rule Cons.IH)
  then show ?case
    using nearest_index_cursor_mono [of p n] by (auto simp: Let_def)
qed

lemma length_py_slice_window:
  assumes "0 \<le> i" and "i < int (length xs)" and "0 < w"
  shows "length (py_slice xs i (i + w)) = nat (min w (int (length xs) - i))"
  using assms by (auto simp: py_slice_def Let_def min_def)

lemma py_index_in_range:
  "0 \<le> i \<Longrightarrow> i < int (length xs) \<Longrightarrow> py_index xs i = Inr (xs ! nat i)"
  by (simp add: py_index_def)

lemma np_hypot_same_length:
  "length a = length b \<Longrightarrow> \<exists>d. np_hypot a b = Inr d \<and> length d = length a"
  by (simp add: np_hypot_def np_elementwise_def)

lemma nearest_index_wf:
  assumes wf: "wf_PATH p" and lo: "0 \<le> ind_old p" and hi: "ind_old p \<le> p_length p - 1"
  shows "\<exists>ind d. nearest_index p node = (p\<lparr>ind_old := ind\<rparr>, Inr (ind, d)) \<and>
           ind_old p \<le> ind \<and> ind \<le> p_length p - 1"
proof -
  let ?n = "int (length (p_cx p))"
  let ?dx = "map (\<lambda>x. node_x node - x)
               (py_slice (p_cx p) (ind_old p) (ind_old p + P_N_IND_SEARCH))"
  let ?dy = "map (\<lambda>y. node_y node - y)
               (py_slice (p_cy p) (ind_old p) (ind_old p + P_N_IND_SEARCH))"
  from wf have len: "p_length p = ?n" "length (p_cy p) = length (p_cx p)"
    "length (p_cyaw p) = length (p_cx p)"
    by (auto simp: wf_PATH_def)
  have i: "ind_old p < ?n" using hi len by simp
  have ldx: "length ?dx = nat (min P_N_IND_SEARCH (?n - ind_old p))"
    using length_py_slice_window [OF lo i, of P_N_IND_SEARCH] by (simp add: P_N_IND_SEARCH_def)
  have ldy: "length ?dy = nat (min P_N_IND_SEARCH (?n - ind_old p))"
    using length_py_slice_window [of "ind_old p" "p_cy p" P_N_IND_SEARCH] lo i len
    by (simp add: P_N_IND_SEARCH_def)
  obtain ds where ds: "np_hypot ?dx ?dy = Inr ds" "length ds = length ?dx"
    using np_hypot_same_length [of ?dx ?dy] ldx ldy by auto
  have pos: "0 < length ds"
    using ds(2) ldx i by (simp add: P_N_IND_SEARCH_def)
  then have ne: "ds \<noteq> []" by auto
  define k where "k = argmin_list ds"
  have k: "k < length ds" unfolding k_def by (rule argmin_list_less [OF ne])
  define ind where "ind = int k + ind_old p"
  have b: "ind_old p \<le> ind" "ind \<le> ?n - 1" "0 \<le> ind" "ind < ?n"
    using k ds(2) ldx lo i by (auto simp: ind_def)
  have rd: "py_index (p_cx p) ind = Inr (p_cx p ! nat ind)"
    "py_index (p_cy p) ind = Inr (p_cy p ! nat ind)"
    "py_index (p_cyaw p) ind = Inr (p_cyaw p ! nat ind)"
    using b len by (auto intro: py_index_in_range)
  have "\<exists>d. nearest_index p node = (p\<lparr>ind_old := ind\<rparr>, Inr (ind, d))"
    using ds(1) ne rd
    by (simp add: nearest_index_def Let_def bind_err_def np_argmin_def k_def [symmetric]
        ind_def [symmetric])
  with b len show ?thesis by auto
qed

text \<open>
  C9. For a well-formed PATH (parallel, non-empty sample arrays) whose cursor satisfies
  \<open>0 \<le> ind_old \<le> length - 1\<close>, and every query node, \<open>nearest_index\<close> raises nothing and
  returns an index \<open>ind\<close> with \<open>ind_old \<le> ind \<le> length - 1\<close>, which is also the new cursor;
  the reads \<open>cx[ind]\<close>, \<open>cy[ind]\<close> and \<open>cyaw[ind]\<close> are in bounds.
\<close>

theorem nearest_index_in_bounds:
  assumes "wf_PATH p" and "0 \<le> ind_old p" and "ind_old p \<le> p_length p - 1"
  shows "\<exists>ind d. snd (nearest_index p node) = Inr (ind, d) \<and>
           ind_old (fst (nearest_index p node)) = ind \<and>
           ind_old p \<le> ind \<and> ind \<le> p_length p - 1 \<and>
           py_index (p_cx p) ind = Inr (p_cx p ! nat ind) \<and>
           py_index (p_cy p) ind = Inr (p_cy p ! nat ind) \<and>
           py_index (p_cyaw p) ind = Inr (p_cyaw p ! nat ind)"
proof -
  obtain ind d where r: "nearest_index p node = (p\<lparr>ind_old := ind\<rparr>, Inr (ind, d))"
    "ind_old p \<le> ind" "ind \<le> p_length p - 1"
    using nearest_index_wf [OF assms] by blast
  from assms(1) have len: "p_length p = int (length (p_cx p))"
    "length (p_cy p) = length (p_cx p)" "length (p_cyaw p) = length (p_cx p)"
    by (auto simp: wf_PATH_def)
  have b: "0 \<le> ind" "ind < int (length (p_cx p))"
    using r(2,3) assms(2) len by auto
  have "py_index (p_cx p) ind = Inr (p_cx p ! nat ind)"
    "py_index (p_cy p) ind = Inr (p_cy p ! nat ind)"
    "py_index (p_cyaw p) ind = Inr (p_cyaw p ! nat ind)"
    using b len by (auto intro: py_index_in_range)
  with r show ?thesis by auto
qed

theorem nearest_index_in_bounds_witness:
  "wf_PATH (PATH_init [0, 1, 2] [0, 0, 0] [0, 0, 0] [0, 0, 0]) \<and>
   0 \<le> ind_old (PATH_init [0, 1, 2] [0, 0, 0] [0, 0, 0] [0, 0, 0]) \<and>
   ind_old (PATH_init [0, 1, 2] [0, 0, 0] [0, 0, 0] [0, 0, 0])
     \<le> p_length (PATH_init [0, 1, 2] [0, 0, 0] [0, 0, 0] [0, 0, 0]) - 1 \<and>
   (\<exists>ind d. snd (nearest_index (PATH_init [0, 1, 2] [0, 0, 0] [0, 0, 0] [0, 0, 0])
                  \<lparr>node_x = 1, node_y = 0, node_yaw = 0, node_v = 0, node_direct = 1\<rparr>)
              = Inr (ind, d) \<and> 0 \<le> ind \<and> ind \<le> 2)"
proof -
  let ?p = "PATH_init [0, 1, 2] [0, 0, 0] [0, 0, 0] [0, 0, 0]"
  have h1: "wf_PATH ?p" by (simp add: wf_PATH_def PATH_init_def)
  have h2: "0 \<le> ind_old ?p" by (simp add: PATH_init_def)
  have h3: "ind_old ?p \<le> p_length ?p - 1" by (simp add: PATH_init_def)
  have l: "p_length ?p = 3" "ind_old ?p = 0" by (simp_all add: PATH_init_def)
  show ?thesis
    using h1 h2 h3
      nearest_index_in_bounds [OF h1 h2 h3,
        of "\<lparr>node_x = 1, node_y = 0, node_yaw = 0, node_v = 0, node_direct = 1\<rparr>"]
    unfolding l by fastforce
qed

subsection \<open>calc\_speed\_profile\<close>

lemma for_loop_append:
  "for_loop (xs @ ys) body s = bind_err (for_loop xs body s) (for_loop ys body)"
  by (induction xs arbitrary: s) (auto simp: bind_err_def split: sum.splits)

lemma for_loop_snoc:
  "for_loop [0..<Suc k] body s = bind_err (for_loop [0..<k] body s) (body k)"
  by (simp add: for_loop_append bind_err_def split: sum.splits)

lemma speed_step_eval:
  assumes "Suc i < length cx" and "length cy = length cx" and "length cyaw = length cx"
  shows "speed_step cx cy cyaw ts i (d, sp) =
     (let dx = cx ! Suc i - cx ! i; dy = cy ! Suc i - cy ! i;
          d' = (if dx \<noteq> 0 \<and> dy \<noteq> 0
                then (if \<bar>pi_2_pi (atan2 dy dx - cyaw ! i)\<bar> \<ge> pi / 4 then - 1 else 1)
                else d)
      in Inr (d', sp[i := (if d' \<noteq> 1 then - ts else ts)]))"
proof -
  have "py_index cx (int i + 1) = Inr (cx ! Suc i)" "py_index cx (int i) = Inr (cx ! i)"
    "py_index cy (int i + 1) = Inr (cy ! Suc i)" "py_index cy (int i) = Inr (cy ! i)"
    "py_index cyaw (int i) = Inr (cyaw ! i)"
    using assms by (auto simp: py_index_def nat_add_distrib)
  then show ?thesis
    by (simp add: speed_step_def bind_err_def Let_def)
qed

lemma speed_loop_inv:
  assumes "length cy = length cx" and "length cyaw = length cx" and "k \<le> length cx - 1"
  shows "\<exists>d sp. for_loop [0..<k] (speed_step cx cy cyaw ts) (1, replicate (length cx) ts)
                    = Inr (d, sp) \<and>
           length sp = length cx \<and>
           (if k = 0 then d = 1 else sp ! (k - 1) = (if d \<noteq> 1 then - ts else ts)) \<and>
           (\<forall>j<k. sp ! j =
              (let dx = cx ! Suc j - cx ! j; dy = cy ! Suc j - cy ! j
               in if dx \<noteq> 0 \<and> dy \<noteq> 0
                  then (if \<bar>pi_2_pi (atan2 dy dx - cyaw ! j)\<bar> \<ge> pi / 4 then - ts else ts)
                  else (if j = 0 then ts else sp ! (j - 1))))"
  using assms(3)
proof (induction k)
  case 0
  then show ?case by simp
next
  case (Suc k)
  then have kl: "Suc k < length cx" by simp
  from Suc obtain d sp where
    run: "for_loop [0..<k] (speed_step cx cy cyaw ts) (1, replicate (length cx) ts) = Inr (d, sp)"
    and len: "length sp = length cx"
    and last: "if k = 0 then d = 1 else sp ! (k - 1) = (if d \<noteq> 1 then - ts else ts)"
    and inv: "\<forall>j<k. sp ! j =
              (let dx = cx ! Suc j - cx ! j; dy = cy ! Suc j - cy ! j
               in if dx \<noteq> 0 \<and> dy \<noteq> 0
                  then (if \<bar>pi_2_pi (atan2 dy dx - cyaw ! j)\<bar> \<ge> pi / 4 then - ts else ts)
                  else (if j = 0 then ts else sp ! (j - 1)))"
    by auto
  define dx where "dx = cx ! Suc k - cx ! k"
  define dy where "dy = cy ! Suc k - cy ! k"
  define d' where "d' = (if dx \<noteq> 0 \<and> dy \<noteq> 0
                then (if \<bar>pi_2_pi (atan2 dy dx - cyaw ! k)\<bar> \<ge> pi / 4 then - 1 else 1)
                else d)"
  define sp' where "sp' = sp[k := (if d' \<noteq> 1 then - ts else ts)]"
  have step: "speed_step cx cy cyaw ts k (d, sp) = Inr (d', sp')"
    using speed_step_eval [OF kl assms(1,2), of ts d sp]
    by (simp add: Let_def dx_def dy_def d'_def sp'_def)
  have run': "for_loop [0..<Suc k] (speed_step cx cy cyaw ts) (1, replicate (length cx) ts)
                = Inr (d', sp')"
    unfolding for_loop_snoc run by (simp add: bind_err_def step)
  have len': "length sp' = length cx" by (simp add: sp'_def len)
  have kk: "k < length sp" using kl len by simp
  have atk: "sp' ! k = (if d' \<noteq> 1 then - ts else ts)"
    using kk by (simp add: sp'_def)
  have old: "\<And>j. j < k \<Longrightarrow> sp' ! j = sp ! j"
    by (simp add: sp'_def)
  have newk: "sp' ! k = (if dx \<noteq> 0 \<and> dy \<noteq> 0
                  then (if \<bar>pi_2_pi (atan2 dy dx - cyaw ! k)\<bar> \<ge> pi / 4 then - ts else ts)
                  else (if k = 0 then ts else sp' ! (k - 1)))"
  proof (cases "dx \<noteq> 0 \<and> dy \<noteq> 0")
    case True
    then show ?thesis unfolding atk by (simp add: d'_def)
  next
    case False
    then have dd: "d' = d" by (auto simp: d'_def)
    show ?thesis
    proof (cases "k = 0")
      case True
      with last False dd show ?thesis unfolding atk by auto
    next
      case k: False
      then have "sp' ! (k - 1) = sp ! (k - 1)" by (intro old) simp
      with last False dd k show ?thesis unfolding atk by auto
    qed
  qed
  have inv': "\<forall>j<Suc k. sp' ! j =
              (let dx = cx ! Suc j - cx ! j; dy = cy ! Suc j - cy ! j
               in if dx \<noteq> 0 \<and> dy \<noteq> 0
                  then (if \<bar>pi_2_pi (atan2 dy dx - cyaw ! j)\<bar> \<ge> pi / 4 then - ts else ts)
                  else (if j = 0 then ts else sp' ! (j - 1)))"
  proof (intro allI impI)
    fix j assume "j < Suc k"
    then consider "j < k" | "j = k" by linarith
    then show "sp' ! j =
              (let dx = cx ! Suc j - cx ! j; dy = cy ! Suc j - cy ! j
               in if dx \<noteq> 0 \<and> dy \<noteq> 0
                  then (if \<bar>pi_2_pi (atan2 dy dx - cyaw ! j)\<bar> \<ge> pi / 4 then - ts else ts)
                  else (if j = 0 then ts else sp' ! (j - 1)))"
    proof cases
      case 1
      then have "sp' ! j = sp ! j" "j \<noteq> 0 \<Longrightarrow> sp' ! (j - 1) = sp ! (j - 1)"
        by (auto intro: old)
      with inv 1 show ?thesis by (auto simp: Let_def)
    next
      case 2
      with newk show ?thesis by (simp add: Let_def dx_def dy_def)
    qed
  qed
  show ?case
    using run' len' atk inv' by auto
qed


text \<open>
  C4, as the code has it. For parallel arrays and a non-final sample \<open>i\<close>: when both
  \<open>dx = cx[i+1] - cx[i]\<close> and \<open>dy = cy[i+1] - cy[i]\<close> are non-zero, \<open>speed_profile[i]\<close> is
  \<open>-target_speed\<close> if \<open>|pi_2_pi(atan2(dy, dx) - cyaw[i])| \<ge> \<pi>/4\<close> and \<open>+target_speed\<close>
  otherwise; when \<open>dx\<close> or \<open>dy\<close> is zero the direction of the previous segment is kept
  (forward for the first one): \<open>speed_profile[i] = speed_profile[i-1]\<close>, and \<open>+target_speed\<close>
  for \<open>i = 0\<close>.
\<close>

theorem calc_speed_profile_segment_rule:
  assumes "length cy = length cx" and "length cyaw = length cx" and "Suc i < length cx"
  shows "\<exists>sp. calc_speed_profile cx cy cyaw ts = Inr sp \<and> length sp = length cx \<and>
           sp ! i =
             (let dx = cx ! Suc i - cx ! i; dy = cy ! Suc i - cy ! i
              in if dx \<noteq> 0 \<and> dy \<noteq> 0
                 then (if \<bar>pi_2_pi (atan2 dy dx - cyaw ! i)\<bar> \<ge> pi / 4 then - ts else ts)
                 else (if i = 0 then ts else sp ! (i - 1)))"
proof -
  obtain d sp where
    run: "for_loop [0..<length cx - 1] (speed_step cx cy cyaw ts) (1, replicate (length cx) ts)
            = Inr (d, sp)"
    and len: "length sp = length cx"
    and inv: "\<forall>j<length cx - 1. sp ! j =
              (let dx = cx ! Suc j - cx ! j; dy = cy ! Suc j - cy ! j
               in if dx \<noteq> 0 \<and> dy \<noteq> 0
                  then (if \<bar>pi_2_pi (atan2 dy dx - cyaw ! j)\<bar> \<ge> pi / 4 then - ts else ts)
                  else (if j = 0 then ts else sp ! (j - 1)))"
    using speed_loop_inv [OF assms(1,2), of "length cx - 1" ts] by auto
  define fin where "fin = sp[length sp - 1 := 0]"
  have ne: "sp \<noteq> []" using len assms(3) by auto
  have res: "calc_speed_profile cx cy cyaw ts = Inr fin"
    using run ne by (simp add: calc_speed_profile_def bind_err_def fin_def)
  have il: "i < length cx - 1" using assms(3) by simp
  have same: "fin ! i = sp ! i" "i \<noteq> 0 \<Longrightarrow> fin ! (i - 1) = sp ! (i - 1)"
    using il len by (auto simp: fin_def)
  have "fin ! i =
             (let dx = cx ! Suc i - cx ! i; dy = cy ! Suc i - cy ! i
              in if dx \<noteq> 0 \<and> dy \<noteq> 0
                 then (if \<bar>pi_2_pi (atan2 dy dx - cyaw ! i)\<bar> \<ge> pi / 4 then - ts else ts)
                 else (if i = 0 then ts else fin ! (i - 1)))"
    using inv il same by (auto simp: Let_def)
  moreover have "length fin = length cx" by (simp add: fin_def len)
  ultimately show ?thesis using res by blast
qed

theorem calc_speed_profile_segment_rule_witness:
  "length [0, 1 :: real] = length [0, 1 :: real] \<and>
   length [pi / 4, pi / 4] = length [0, 1 :: real] \<and> Suc 0 < length [0, 1 :: real] \<and>
   (\<exists>sp. calc_speed_profile [0, 1] [0, 1] [pi / 4, pi / 4] 2 = Inr sp \<and> sp ! 0 = 2)"
proof -
  have h1: "length [0, 1 :: real] = length [0, 1 :: real]" by simp
  have h2: "length [pi / 4, pi / 4] = length [0, 1 :: real]" by simp
  have h3: "Suc 0 < length [0, 1 :: real]" by simp
  have a: "atan2 1 1 = pi / 4" by (simp add: atan2_def arctan_one)
  show ?thesis
    using calc_speed_profile_segment_rule [OF h1 h2 h3, of 2] pi_gt_zero
    by (auto simp: Let_def a pi_2_pi_def)
qed

text \<open>
  C4 as stated fails on an axis-aligned segment: the path \<open>(0, 0), (-1, 0)\<close> with heading
  0 moves in direction \<open>\<pi>\<close>, more than \<open>\<pi>/4\<close> away from the heading, and the first sample
  still gets \<open>+target_speed\<close>.
\<close>

theorem calc_speed_profile_axis_aligned_reverse:
  "pi / 4 < \<bar>pi_2_pi (atan2 (0 - 0) (- 1 - 0) - 0)\<bar> \<and>
   calc_speed_profile [0, - 1] [0, 0] [0, 0] 1 = Inr [1, 0]"
proof -
  have a: "atan2 (0 - 0) (- 1 - 0) = pi" by (simp add: atan2_def)
  have b: "pi / 4 < \<bar>pi_2_pi (pi - 0)\<bar>"
    using pi_gt_zero by (simp add: pi_2_pi_def)
  have c: "calc_speed_profile [0, - 1] [0, 0] [0, 0] 1 = Inr [1, 0]"
    by (simp add: calc_speed_profile_def speed_step_def py_index_def bind_err_def Let_def)
  show ?thesis unfolding a using b c by simp
qed

subsection \<open>calc\_optimal\_trajectory\_in\_T\_step\<close>

lemma py_round_nonneg: "0 \<le> r \<Longrightarrow> 0 \<le> py_round r"
  by (auto simp: py_round_def Let_def)

lemma mat_set_4:
  assumes "i < length r0" and "i < length r1" and "i < length r2" and "i < length r3"
  shows "mat_set [r0, r1, r2, r3] 0 i v = Inr [r0[i := v], r1, r2, r3]"
    and "mat_set [r0, r1, r2, r3] (Suc 0) i v = Inr [r0, r1[i := v], r2, r3]"
    and "mat_set [r0, r1, r2, r3] 2 i v = Inr [r0, r1, r2[i := v], r3]"
    and "mat_set [r0, r1, r2, r3] 3 i v = Inr [r0, r1, r2, r3[i := v]]"
  using assms by (simp_all add: mat_set_def numeral_3_eq_3)

lemma replicate_update_same: "(replicate n x)[i := x] = replicate n x"
  by (induction n arbitrary: i) (auto split: nat.splits)

lemma keeps_sign_exact: "keeps_sign exact_ops"
  by (simp add: keeps_sign_def exact_ops_def)

lemma travel_after_exact: "travel_after exact_ops v k = Some (real k * (\<bar>v\<bar> * P_dt))"
  by (induction k) (simp_all add: exact_ops_def fl_lift_def algebra_simps)

lemma look_ahead_exact: "look_ahead exact_ops v dl i = Some (real (i + 1) * (\<bar>v\<bar> * P_dt) / dl)"
  unfolding look_ahead_def travel_after_exact
  by (simp add: exact_ops_def fl_lift_def)

lemma travel_after_nonneg:
  assumes "keeps_sign f"
  shows "travel_after f v k = Some t \<Longrightarrow> 0 \<le> t"
proof (induction k arbitrary: t)
  case 0
  then show ?case by simp
next
  case (Suc k)
  from Suc.prems obtain x y where
    x: "travel_after f v k = Some x" and y: "fl_mul f \<bar>v\<bar> P_dt = Some y"
    and r: "fl_add f x y = Some t"
    by (auto simp: fl_lift_def split: option.splits)
  have x0: "0 \<le> x" using Suc.IH x by blast
  have "0 \<le> \<bar>v\<bar> \<and> 0 \<le> P_dt \<and> fl_mul f \<bar>v\<bar> P_dt = Some y"
    using y by (simp add: P_dt_def)
  then have y0: "0 \<le> y" using assms unfolding keeps_sign_def by blast
  from x0 y0 r have "0 \<le> x \<and> 0 \<le> y \<and> fl_add f x y = Some t" by simp
  then show ?case using assms unfolding keeps_sign_def by blast
qed

lemma look_ahead_nonneg:
  assumes "keeps_sign f" and "0 < dl" and "look_ahead f v dl i = Some q"
  shows "0 \<le> q"
proof -
  from assms(3) obtain t where t: "travel_after f v (Suc i) = Some t" and q: "fl_div f t dl = Some q"
    unfolding look_ahead_def by (auto simp: fl_lift_def split: option.splits)
  have "0 \<le> t" using travel_after_nonneg [OF assms(1) t] .
  with assms(2) q have "0 \<le> t \<and> 0 < dl \<and> fl_div f t dl = Some q" by simp
  then show ?thesis using assms(1) unfolding keeps_sign_def by blast
qed

lemma traj_step_eval:
  assumes i: "i < length r0" "i < length r1" "i < length r2" "i < length r3" "i < n"
    and dl: "dl \<noteq> 0"
    and q: "fl_lift (fl_div f) (fl_lift (fl_add f) travel (fl_mul f \<bar>node_v node\<bar> P_dt)) (Some dl)
              = Some q"
    and idx: "0 \<le> min (ind + py_round q) (len - 1)"
      "min (ind + py_round q) (len - 1) < int (length (p_cx p))"
    and par: "length (p_cy p) = length (p_cx p)" "length (p_cyaw p) = length (p_cx p)"
      "length sp = length (p_cx p)"
  shows "traj_step f node p sp dl ind len i (travel, [r0, r1, r2, r3], [replicate n 0]) =
     (let k = nat (min (ind + py_round q) (len - 1))
      in Inr (fl_lift (fl_add f) travel (fl_mul f \<bar>node_v node\<bar> P_dt),
              [r0[i := p_cx p ! k], r1[i := p_cy p ! k], r2[i := sp ! k], r3[i := p_cyaw p ! k]],
              [replicate n 0]))"
proof -
  let ?index = "min (ind + py_round q) (len - 1)"
  have rd: "py_index (p_cx p) ?index = Inr (p_cx p ! nat ?index)"
    "py_index (p_cy p) ?index = Inr (p_cy p ! nat ?index)"
    "py_index sp ?index = Inr (sp ! nat ?index)"
    "py_index (p_cyaw p) ?index = Inr (p_cyaw p ! nat ?index)"
    using idx par by (auto intro: py_index_in_range)
  have d: "mat_set [replicate n 0] 0 i 0 = Inr [replicate n 0]"
    using i(5) by (simp add: mat_set_def replicate_update_same)
  show ?thesis
    unfolding traj_step_def prod.case Let_def q option.case
    using dl i(1-4) by (simp add: rd bind_err_def mat_set_4 d)
qed

text \<open>A travel that has overflowed makes \<open>round\<close> raise OverflowError.\<close>

lemma traj_step_overflow:
  assumes "dl \<noteq> 0"
    and "fl_lift (fl_div f) (fl_lift (fl_add f) travel (fl_mul f \<bar>node_v node\<bar> P_dt)) (Some dl)
           = None"
  shows "traj_step f node p sp dl ind len i (travel, z_opt, d_opt) = Inl OverflowError"
  using assms by (simp add: traj_step_def Let_def)

lemma traj_loop_inv:
  assumes par: "length (p_cy p) = length (p_cx p)" "length (p_cyaw p) = length (p_cx p)"
      "length sp = length (p_cx p)"
    and len: "len = int (length (p_cx p))"
    and ind: "0 \<le> ind" "ind < len"
    and dl: "0 < dl"
    and ks: "keeps_sign f"
    and rows: "length r0 = n" "length r1 = n" "length r2 = n" "length r3 = n"
  shows "k \<le> n \<Longrightarrow> \<forall>j<k. look_ahead f (node_v node) dl j \<noteq> None \<Longrightarrow>
         \<exists>s0 s1 s2 s3.
           for_loop [0..<k] (traj_step f node p sp dl ind len)
               (Some 0, [r0, r1, r2, r3], [replicate n 0])
             = Inr (travel_after f (node_v node) k, [s0, s1, s2, s3], [replicate n 0]) \<and>
           length s0 = n \<and> length s1 = n \<and> length s2 = n \<and> length s3 = n \<and>
           (\<forall>j<k. \<exists>q. look_ahead f (node_v node) dl j = Some q \<and>
              0 \<le> min (ind + py_round q) (len - 1) \<and>
              column_is [s0, s1, s2, s3] j p sp (nat (min (ind + py_round q) (len - 1))))"
proof (induction k)
  case 0
  then show ?case using rows by simp
next
  case (Suc k)
  have kn: "k < n" using Suc.prems(1) by simp
  have fin: "\<forall>j<k. look_ahead f (node_v node) dl j \<noteq> None"
    using Suc.prems(2) by simp
  obtain s0 s1 s2 s3 where
    run: "for_loop [0..<k] (traj_step f node p sp dl ind len)
               (Some 0, [r0, r1, r2, r3], [replicate n 0])
             = Inr (travel_after f (node_v node) k, [s0, s1, s2, s3], [replicate n 0])"
    and ls: "length s0 = n" "length s1 = n" "length s2 = n" "length s3 = n"
    and inv: "\<forall>j<k. \<exists>q. look_ahead f (node_v node) dl j = Some q \<and>
              0 \<le> min (ind + py_round q) (len - 1) \<and>
              column_is [s0, s1, s2, s3] j p sp (nat (min (ind + py_round q) (len - 1)))"
    using Suc.IH [OF _ fin] kn by auto
  obtain q where q: "look_ahead f (node_v node) dl k = Some q"
    using Suc.prems(2) by auto
  have q': "fl_lift (fl_div f)
              (fl_lift (fl_add f) (travel_after f (node_v node) k) (fl_mul f \<bar>node_v node\<bar> P_dt))
              (Some dl) = Some q"
    using q by (simp add: look_ahead_def)
  have q0: "0 \<le> q" by (rule look_ahead_nonneg [OF ks dl q])
  have rn: "0 \<le> py_round q" using q0 by (rule py_round_nonneg)
  define ix where "ix = nat (min (ind + py_round q) (len - 1))"
  have b: "0 \<le> min (ind + py_round q) (len - 1)"
    "min (ind + py_round q) (len - 1) < int (length (p_cx p))"
    using rn ind len by auto
  define u0 where "u0 = s0[k := p_cx p ! ix]"
  define u1 where "u1 = s1[k := p_cy p ! ix]"
  define u2 where "u2 = s2[k := sp ! ix]"
  define u3 where "u3 = s3[k := p_cyaw p ! ix]"
  have dl0: "dl \<noteq> 0" using dl by simp
  have step: "traj_step f node p sp dl ind len k
                (travel_after f (node_v node) k, [s0, s1, s2, s3], [replicate n 0]) =
      Inr (travel_after f (node_v node) (Suc k), [u0, u1, u2, u3], [replicate n 0])"
    using traj_step_eval [of k s0 s1 s2 s3 n dl f "travel_after f (node_v node) k" node q ind
        len p sp] kn ls dl0 q' b par
    by (simp add: Let_def ix_def u0_def u1_def u2_def u3_def)
  have run': "for_loop [0..<Suc k] (traj_step f node p sp dl ind len)
                (Some 0, [r0, r1, r2, r3], [replicate n 0])
             = Inr (travel_after f (node_v node) (Suc k), [u0, u1, u2, u3], [replicate n 0])"
    unfolding for_loop_snoc run bind_err_def by (simp only: sum.case step)
  have ul: "length u0 = n" "length u1 = n" "length u2 = n" "length u3 = n"
    using ls by (simp_all add: u0_def u1_def u2_def u3_def)
  have ck: "column_is [u0, u1, u2, u3] k p sp ix"
    using kn ls
    by (simp add: column_is_def u0_def u1_def u2_def u3_def numeral_2_eq_2 numeral_3_eq_3)
  have old: "\<And>j m. j < k \<Longrightarrow> column_is [s0, s1, s2, s3] j p sp m
                \<Longrightarrow> column_is [u0, u1, u2, u3] j p sp m"
    by (simp add: column_is_def u0_def u1_def u2_def u3_def numeral_2_eq_2 numeral_3_eq_3)
  have inv': "\<forall>j<Suc k. \<exists>q. look_ahead f (node_v node) dl j = Some q \<and>
              0 \<le> min (ind + py_round q) (len - 1) \<and>
              column_is [u0, u1, u2, u3] j p sp (nat (min (ind + py_round q) (len - 1)))"
  proof (intro allI impI)
    fix j assume "j < Suc k"
    then consider "j < k" | "j = k" by linarith
    then show "\<exists>q. look_ahead f (node_v node) dl j = Some q \<and>
              0 \<le> min (ind + py_round q) (len - 1) \<and>
              column_is [u0, u1, u2, u3] j p sp (nat (min (ind + py_round q) (len - 1)))"
    proof cases
      case 1
      then obtain q1 where "look_ahead f (node_v node) dl j = Some q1"
        "0 \<le> min (ind + py_round q1) (len - 1)"
        "column_is [s0, s1, s2, s3] j p sp (nat (min (ind + py_round q1) (len - 1)))"
        using inv by blast
      then show ?thesis using old [OF 1] by blast
    next
      case 2
      then show ?thesis using q b(1) ck unfolding ix_def by blast
    qed
  qed
  from run' ul inv' show ?case by blast
qed

lemma np_zeros_rows:
  "np_zeros P_NX n = [replicate n 0, replicate n 0, replicate n 0, replicate n 0]"
  "np_zeros 1 n = [replicate n 0]"
  "np_zeros (Suc 0) n = [replicate n 0]"
  by (simp_all add: np_zeros_def P_NX_def numeral_eq_Suc)

lemma calc_optimal_trajectory_rows:
  assumes wf: "wf_PATH p" and lo: "0 \<le> ind_old p" and hi: "ind_old p \<le> p_length p - 1"
    and sp: "length sp = length (p_cx p)" and dl: "0 < dl"
    and ks: "keeps_sign f"
    and fin: "\<forall>i\<le>P_T. look_ahead f (node_v node) dl i \<noteq> None"
  shows "\<exists>ind d s0 s1 s2 s3.
           nearest_index p node = (p\<lparr>ind_old := ind\<rparr>, Inr (ind, d)) \<and>
           calc_optimal_trajectory_in_T_step f node p sp dl =
             (p\<lparr>ind_old := ind\<rparr>, Inr ([s0, s1, s2, s3], ind, [replicate (P_T + 1) 0])) \<and>
           length s0 = P_T + 1 \<and> length s1 = P_T + 1 \<and> length s2 = P_T + 1 \<and>
           length s3 = P_T + 1 \<and>
           (\<forall>i\<le>P_T. \<exists>q. look_ahead f (node_v node) dl i = Some q \<and>
              0 \<le> min (ind + py_round q) (p_length p - 1) \<and>
              column_is [s0, s1, s2, s3] i p sp (nat (min (ind + py_round q) (p_length p - 1))))"
proof -
  obtain ind d where ni: "nearest_index p node = (p\<lparr>ind_old := ind\<rparr>, Inr (ind, d))"
    and ib: "ind_old p \<le> ind" "ind \<le> p_length p - 1"
    using nearest_index_wf [OF wf lo hi] by blast
  define q where "q = p\<lparr>ind_old := ind\<rparr>"
  define n where "n = P_T + 1"
  from wf have len: "p_length p = int (length (p_cx p))"
    "length (p_cy p) = length (p_cx p)" "length (p_cyaw p) = length (p_cx p)"
    by (auto simp: wf_PATH_def)
  have qf: "p_cx q = p_cx p" "p_cy q = p_cy p" "p_cyaw q = p_cyaw p"
    by (simp_all add: q_def)
  have b: "0 \<le> ind" "ind < int (length (p_cx p))" "ind < p_length p"
    using ib lo len by auto
  have rd: "py_index (p_cx q) ind = Inr (p_cx p ! nat ind)"
    "py_index (p_cy q) ind = Inr (p_cy p ! nat ind)"
    "py_index sp ind = Inr (sp ! nat ind)"
    "py_index (p_cyaw q) ind = Inr (p_cyaw p ! nat ind)"
    using b len sp unfolding qf by (auto intro: py_index_in_range)
  define r0 where "r0 = (replicate n (0::real))[0 := p_cx p ! nat ind]"
  define r1 where "r1 = (replicate n (0::real))[0 := p_cy p ! nat ind]"
  define r2 where "r2 = (replicate n (0::real))[0 := sp ! nat ind]"
  define r3 where "r3 = (replicate n (0::real))[0 := p_cyaw p ! nat ind]"
  have rl: "length r0 = n" "length r1 = n" "length r2 = n" "length r3 = n"
    by (simp_all add: r0_def r1_def r2_def r3_def)
  have n0: "0 < n" by (simp add: n_def)
  have pre: "mat_set (np_zeros P_NX n) 0 0 (p_cx p ! nat ind)
               = Inr [r0, replicate n 0, replicate n 0, replicate n 0]"
    "mat_set [r0, replicate n 0, replicate n 0, replicate n 0] (Suc 0) 0 (p_cy p ! nat ind)
               = Inr [r0, r1, replicate n 0, replicate n 0]"
    "mat_set [r0, r1, replicate n 0, replicate n 0] 2 0 (sp ! nat ind)
               = Inr [r0, r1, r2, replicate n 0]"
    "mat_set [r0, r1, r2, replicate n 0] 3 0 (p_cyaw p ! nat ind) = Inr [r0, r1, r2, r3]"
    "mat_set (np_zeros 1 n) 0 0 0 = Inr [replicate n 0]"
    "mat_set (np_zeros (Suc 0) n) 0 0 0 = Inr [replicate n 0]"
    using n0 rl
    by (simp_all add: np_zeros_rows mat_set_4 r0_def r1_def r2_def r3_def mat_set_def
        replicate_update_same)
  have fin': "\<forall>j<n. look_ahead f (node_v node) dl j \<noteq> None"
    using fin by (simp add: n_def)
  have pq: "length (p_cy q) = length (p_cx q)" "length (p_cyaw q) = length (p_cx q)"
    "length sp = length (p_cx q)" "p_length p = int (length (p_cx q))"
    "ind < p_length p"
    using len sp b unfolding qf by simp_all
  obtain s0 s1 s2 s3 where
    run: "for_loop [0..<n] (traj_step f node q sp dl ind (p_length p))
            (Some 0, [r0, r1, r2, r3], [replicate n 0])
             = Inr (travel_after f (node_v node) n, [s0, s1, s2, s3], [replicate n 0])"
    and sl: "length s0 = n" "length s1 = n" "length s2 = n" "length s3 = n"
    and inv: "\<forall>j<n. \<exists>t. look_ahead f (node_v node) dl j = Some t \<and>
              0 \<le> min (ind + py_round t) (p_length p - 1) \<and>
              column_is [s0, s1, s2, s3] j q sp (nat (min (ind + py_round t) (p_length p - 1)))"
    using traj_loop_inv [OF pq(1-4) b(1) pq(5) dl ks rl order_refl fin'] by blast
  have res: "calc_optimal_trajectory_in_T_step f node p sp dl =
               (q, Inr ([s0, s1, s2, s3], ind, [replicate n 0]))"
    unfolding calc_optimal_trajectory_in_T_step_def Let_def ni n_def [symmetric]
      q_def [symmetric]
    by (simp add: rd pre run bind_err_def)
  have cq: "\<And>i m. column_is [s0, s1, s2, s3] i q sp m = column_is [s0, s1, s2, s3] i p sp m"
    by (simp add: column_is_def qf)
  have cols: "\<forall>i\<le>P_T. \<exists>t. look_ahead f (node_v node) dl i = Some t \<and>
              0 \<le> min (ind + py_round t) (p_length p - 1) \<and>
              column_is [s0, s1, s2, s3] i p sp (nat (min (ind + py_round t) (p_length p - 1)))"
    using inv unfolding cq by (simp add: n_def less_Suc_eq_le)
  show ?thesis
    using ni res sl cols unfolding q_def n_def by blast
qed

text \<open>
  C5. For a well-formed path with a valid cursor, a speed profile parallel to the path and a
  positive sample spacing \<open>dl\<close>, and as long as the travel does not overflow,
  \<open>calc_optimal_trajectory_in_T_step\<close> raises nothing; column \<open>i\<close> (\<open>0 \<le> i \<le> T\<close>) of \<open>z_opt\<close>
  holds \<open>(cx, cy, sp, cyaw)\<close> at the index \<open>min(ind + round(travel / dl), length - 1)\<close>,
  where \<open>ind\<close> is the nearest index and \<open>travel\<close> has been incremented by \<open>|v| * dt\<close> once per
  horizon step, step 0 included (\<open>i + 1\<close> times at step \<open>i\<close>); the index is not negative
  and is clamped to the last sample. \<open>d_opt\<close> is zero at every horizon step. The float
  operations are those of the program: any operations that keep the sign.
\<close>

theorem calc_optimal_trajectory_columns:
  assumes "wf_PATH p" and "0 \<le> ind_old p" and "ind_old p \<le> p_length p - 1"
    and "length sp = length (p_cx p)" and "0 < dl"
    and "keeps_sign f"
    and "\<forall>i\<le>P_T. look_ahead f (node_v node) dl i \<noteq> None"
  shows "\<exists>ind d z_opt.
           nearest_index p node = (p\<lparr>ind_old := ind\<rparr>, Inr (ind, d)) \<and>
           calc_optimal_trajectory_in_T_step f node p sp dl =
             (p\<lparr>ind_old := ind\<rparr>, Inr (z_opt, ind, [replicate (P_T + 1) 0])) \<and>
           (\<forall>i\<le>P_T. \<exists>q. look_ahead f (node_v node) dl i = Some q \<and>
              0 \<le> min (ind + py_round q) (p_length p - 1) \<and>
              min (ind + py_round q) (p_length p - 1) \<le> p_length p - 1 \<and>
              column_is z_opt i p sp (nat (min (ind + py_round q) (p_length p - 1))))"
proof -
  obtain ind d s0 s1 s2 s3 where
    1: "nearest_index p node = (p\<lparr>ind_old := ind\<rparr>, Inr (ind, d))"
    and 2: "calc_optimal_trajectory_in_T_step f node p sp dl =
       (p\<lparr>ind_old := ind\<rparr>, Inr ([s0, s1, s2, s3], ind, [replicate (P_T + 1) 0]))"
    and 3: "\<forall>i\<le>P_T. \<exists>q. look_ahead f (node_v node) dl i = Some q \<and>
              0 \<le> min (ind + py_round q) (p_length p - 1) \<and>
              column_is [s0, s1, s2, s3] i p sp (nat (min (ind + py_round q) (p_length p - 1)))"
    using calc_optimal_trajectory_rows [OF assms] by blast
  have "\<forall>i\<le>P_T. \<exists>q. look_ahead f (node_v node) dl i = Some q \<and>
              0 \<le> min (ind + py_round q) (p_length p - 1) \<and>
              min (ind + py_round q) (p_length p - 1) \<le> p_length p - 1 \<and>
              column_is [s0, s1, s2, s3] i p sp (nat (min (ind + py_round q) (p_length p - 1)))"
    using 3 by (meson min.cobounded2)
  with 1 2 show ?thesis by blast
qed

text \<open>
  A run in which every float operation is exact: five samples one apart, the vehicle at
  sample 1 with speed 2.5 and \<open>dl = 1\<close>. The quotients are 0.5, 1, 1.5, 2, 2.5, 3, 3.5;
  \<open>round\<close> takes the ties to the even integer (0, 1, 2, 2, 2, 3, 4), and the last index, 5,
  is clamped to 4.
\<close>

theorem calc_optimal_trajectory_columns_witness:
  "wf_PATH (PATH_init [0, 1, 2, 3, 4] [0, 0, 0, 0, 0] [0, 0, 0, 0, 0] [0, 0, 0, 0, 0]) \<and>
   0 \<le> ind_old (PATH_init [0, 1, 2, 3, 4] [0, 0, 0, 0, 0] [0, 0, 0, 0, 0] [0, 0, 0, 0, 0]) \<and>
   ind_old (PATH_init [0, 1, 2, 3, 4] [0, 0, 0, 0, 0] [0, 0, 0, 0, 0] [0, 0, 0, 0, 0])
     \<le> p_length (PATH_init [0, 1, 2, 3, 4] [0, 0, 0, 0, 0] [0, 0, 0, 0, 0] [0, 0, 0, 0, 0]) - 1 \<and>
   length [1, 1, 1, 1, 0 :: real]
     = length (p_cx (PATH_init [0, 1, 2, 3, 4] [0, 0, 0, 0, 0] [0, 0, 0, 0, 0] [0, 0, 0, 0, 0])) \<and>
   (0::real) < 1 \<and> keeps_sign exact_ops \<and>
   look_ahead exact_ops (5 / 2) 1 0 = Some (1 / 2) \<and>
   look_ahead exact_ops (5 / 2) 1 1 = Some 1 \<and>
   look_ahead exact_ops (5 / 2) 1 2 = Some (3 / 2) \<and>
   look_ahead exact_ops (5 / 2) 1 3 = Some 2 \<and>
   look_ahead exact_ops (5 / 2) 1 4 = Some (5 / 2) \<and>
   look_ahead exact_ops (5 / 2) 1 5 = Some 3 \<and>
   look_ahead exact_ops (5 / 2) 1 6 = Some (7 / 2) \<and>
   (\<exists>z_opt. calc_optimal_trajectory_in_T_step exact_ops
               \<lparr>node_x = 1, node_y = 0, node_yaw = 0, node_v = 5 / 2, node_direct = 1\<rparr>
               (PATH_init [0, 1, 2, 3, 4] [0, 0, 0, 0, 0] [0, 0, 0, 0, 0] [0, 0, 0, 0, 0])
               [1, 1, 1, 1, 0] 1
             = ((PATH_init [0, 1, 2, 3, 4] [0, 0, 0, 0, 0] [0, 0, 0, 0, 0] [0, 0, 0, 0, 0])
                  \<lparr>ind_old := 1\<rparr>,
                Inr (z_opt, 1, [replicate (P_T + 1) 0])) \<and>
            z_opt ! 0 ! 0 = 1 \<and> z_opt ! 0 ! 1 = 2 \<and> z_opt ! 0 ! 2 = 3 \<and> z_opt ! 0 ! 3 = 3 \<and>
            z_opt ! 0 ! 4 = 3 \<and> z_opt ! 0 ! 5 = 4 \<and> z_opt ! 0 ! 6 = 4 \<and>
            z_opt ! 2 ! 5 = 0 \<and> z_opt ! 2 ! 4 = 1)"
proof -
  let ?p = "PATH_init [0, 1, 2, 3, 4] [0, 0, 0, 0, 0] [0, 0, 0, 0, 0] [0, 0, 0, 0, 0]"
  let ?n = "\<lparr>node_x = 1, node_y = 0, node_yaw = 0, node_v = 5 / 2, node_direct = 1\<rparr>"
  let ?sp = "[1, 1, 1, 1, 0 :: real]"
  have h1: "wf_PATH ?p" by (simp add: wf_PATH_def PATH_init_def)
  have h2: "0 \<le> ind_old ?p" by (simp add: PATH_init_def)
  have h3: "ind_old ?p \<le> p_length ?p - 1" by (simp add: PATH_init_def)
  have h4: "length ?sp = length (p_cx ?p)" by (simp add: PATH_init_def)
  have h5: "(0::real) < 1" by simp
  have h6: "keeps_sign exact_ops" by (rule keeps_sign_exact)
  have h7: "\<forall>i\<le>P_T. look_ahead exact_ops (node_v ?n) 1 i \<noteq> None"
    by (simp add: look_ahead_exact)
  have la: "look_ahead exact_ops (5 / 2) 1 0 = Some (1 / 2)"
    "look_ahead exact_ops (5 / 2) 1 1 = Some 1"
    "look_ahead exact_ops (5 / 2) 1 2 = Some (3 / 2)"
    "look_ahead exact_ops (5 / 2) 1 3 = Some 2"
    "look_ahead exact_ops (5 / 2) 1 4 = Some (5 / 2)"
    "look_ahead exact_ops (5 / 2) 1 5 = Some 3"
    "look_ahead exact_ops (5 / 2) 1 6 = Some (7 / 2)"
    by (simp_all add: look_ahead_exact P_dt_def)
  have rr: "py_round (1 / 2) = 0" "py_round 1 = 1" "py_round (3 / 2) = 2" "py_round 2 = 2"
    "py_round (5 / 2) = 2" "py_round 3 = 3" "py_round (7 / 2) = 4"
    by (simp_all add: py_round_def Let_def)
  have ni: "nearest_index ?p ?n = (?p\<lparr>ind_old := 1\<rparr>, Inr (1, 0))"
    by (simp add: nearest_index_def PATH_init_def py_slice_def P_N_IND_SEARCH_def np_hypot_def
        np_elementwise_def np_argmin_def bind_err_def py_index_def Let_def atan2_def pi_2_pi_def)
  obtain ind d z_opt where
    a: "nearest_index ?p ?n = (?p\<lparr>ind_old := ind\<rparr>, Inr (ind, d))"
    and b: "calc_optimal_trajectory_in_T_step exact_ops ?n ?p ?sp 1 =
             (?p\<lparr>ind_old := ind\<rparr>, Inr (z_opt, ind, [replicate (P_T + 1) 0]))"
    and c: "\<forall>i\<le>P_T. \<exists>q. look_ahead exact_ops (node_v ?n) 1 i = Some q \<and>
              0 \<le> min (ind + py_round q) (p_length ?p - 1) \<and>
              min (ind + py_round q) (p_length ?p - 1) \<le> p_length ?p - 1 \<and>
              column_is z_opt i ?p ?sp (nat (min (ind + py_round q) (p_length ?p - 1)))"
    using calc_optimal_trajectory_columns [OF h1 h2 h3 h4 h5 h6 h7] by blast
  have "snd (nearest_index ?p ?n) = Inr (ind, d)" by (simp only: a snd_conv)
  moreover have "snd (nearest_index ?p ?n) = Inr (1, 0)" by (simp only: ni snd_conv)
  ultimately have "(Inr (ind, d) :: error + int \<times> real) = Inr (1, 0)" by (rule trans [OF sym])
  then have i1: "ind = 1" by simp
  have pl: "p_length ?p = 5" "p_cx ?p = [0, 1, 2, 3, 4]" "node_v ?n = 5 / 2"
    by (simp_all add: PATH_init_def)
  have col: "column_is z_opt i ?p ?sp (nat (min (1 + py_round q) 4))"
    if le: "i \<le> P_T" and lq: "look_ahead exact_ops (5 / 2) 1 i = Some q" for i q
  proof -
    obtain q' where 1: "look_ahead exact_ops (node_v ?n) 1 i = Some q'"
      and 2: "column_is z_opt i ?p ?sp (nat (min (ind + py_round q') (p_length ?p - 1)))"
      using c [rule_format, OF le] by blast
    from 1 lq have "q' = q" unfolding pl by simp
    with 2 show ?thesis unfolding i1 pl by simp
  qed
  have c0: "column_is z_opt 0 ?p ?sp 1"
    using col [OF _ la(1)] by (simp add: P_T_def rr)
  have c1: "column_is z_opt 1 ?p ?sp 2"
    using col [OF _ la(2)] by (simp add: P_T_def rr)
  have c2: "column_is z_opt 2 ?p ?sp 3"
    using col [OF _ la(3)] by (simp add: P_T_def rr)
  have c3: "column_is z_opt 3 ?p ?sp 3"
    using col [OF _ la(4)] by (simp add: P_T_def rr)
  have c4: "column_is z_opt 4 ?p ?sp 3"
    using col [OF _ la(5)] by (simp add: P_T_def rr)
  have c5: "column_is z_opt 5 ?p ?sp 4"
    using col [OF _ la(6)] by (simp add: P_T_def rr)
  have c6: "column_is z_opt 6 ?p ?sp 4"
    using col [OF _ la(7)] by (simp add: P_T_def rr)
  have v: "z_opt ! 0 ! 0 = 1" "z_opt ! 0 ! 1 = 2" "z_opt ! 0 ! 2 = 3" "z_opt ! 0 ! 3 = 3"
    "z_opt ! 0 ! 4 = 3" "z_opt ! 0 ! 5 = 4" "z_opt ! 0 ! 6 = 4" "z_opt ! 2 ! 5 = 0"
    "z_opt ! 2 ! 4 = 1"
    using c0 c1 c2 c3 c4 c5 c6 by (simp_all add: column_is_def PATH_init_def)
  have e: "\<exists>z. calc_optimal_trajectory_in_T_step exact_ops ?n ?p ?sp 1
             = (?p\<lparr>ind_old := 1\<rparr>, Inr (z, 1, [replicate (P_T + 1) 0])) \<and>
            z ! 0 ! 0 = 1 \<and> z ! 0 ! 1 = 2 \<and> z ! 0 ! 2 = 3 \<and> z ! 0 ! 3 = 3 \<and>
            z ! 0 ! 4 = 3 \<and> z ! 0 ! 5 = 4 \<and> z ! 0 ! 6 = 4 \<and>
            z ! 2 ! 5 = 0 \<and> z ! 2 ! 4 = 1"
    using b v unfolding i1 by blast
  from h1 h2 h3 h4 h5 h6 la e show ?thesis by (intro conjI)
qed

subsection \<open>solve\_linear\_mpc\<close>

lemma tracking_term_rows:
  assumes "t < length m0" and "t < length m1" and "t < length m2" and "t < length m3"
  shows "tracking_term [m0, m1, m2, m3] t = Inr ()"
  using assms
  by (simp add: tracking_term_def mat_col_def state_shaped_def bind_err_def P_NX_def)

lemma qp_stage_rows:
  assumes "t < length m0" and "t < length m1" and "t < length m2" and "t < length m3"
    and "t < length r2" and "t < length r3" and "t < length e"
  shows "qp_stage [m0, m1, m2, m3] [r0, r1, r2, r3] (e # es) t ms
           = Inr (ms @ [calc_linear_discrete_model (r2 ! t) (r3 ! t) (e ! t)])"
  using assms
  by (simp add: qp_stage_def tracking_term_rows bind_err_def mat_get_def numeral_3_eq_3)

lemma build_stages_prefix:
  assumes "k \<le> length m0" and "k \<le> length m1" and "k \<le> length m2" and "k \<le> length m3"
    and "k \<le> length r2" and "k \<le> length r3" and "k \<le> length e"
  shows "for_loop [0..<k] (qp_stage [m0, m1, m2, m3] [r0, r1, r2, r3] (e # es)) []
         = Inr (map (\<lambda>t. calc_linear_discrete_model (r2 ! t) (r3 ! t) (e ! t)) [0..<k])"
  using assms
proof (induction k)
  case 0
  then show ?case by simp
next
  case (Suc k)
  then show ?case
    unfolding for_loop_snoc
    by (simp add: bind_err_def qp_stage_rows)
qed

lemma build_problem_shape:
  assumes ml: "length m0 = P_T + 1" "length m1 = P_T + 1" "length m2 = P_T + 1"
      "length m3 = P_T + 1"
    and rl: "P_T \<le> length r2" "P_T \<le> length r3" and el: "P_T \<le> length e"
  shows "build_problem [m0, m1, m2, m3] [r0, r1, r2, r3] [x0, y0, v0, yaw0] (e # es)
         = Inr \<lparr>qp_dynamics =
                  map (\<lambda>t. calc_linear_discrete_model (r2 ! t) (r3 ! t) (e ! t)) [0..<P_T],
                qp_z_opt = [m0, m1, m2, m3], qp_z0 = [x0, y0, v0, yaw0]\<rparr>"
proof -
  have st: "for_loop [0..<P_T] (qp_stage [m0, m1, m2, m3] [r0, r1, r2, r3] (e # es)) []
         = Inr (map (\<lambda>t. calc_linear_discrete_model (r2 ! t) (r3 ! t) (e ! t)) [0..<P_T])"
    using ml rl el by (intro build_stages_prefix) simp_all
  have tt: "tracking_term [m0, m1, m2, m3] P_T = Inr ()"
    using ml by (intro tracking_term_rows) simp_all
  have z: "state_shaped [x0, y0, v0, yaw0] = Inr ()"
    by (simp add: state_shaped_def P_NX_def)
  show ?thesis
    unfolding build_problem_def st tt z bind_err_def by simp
qed

text \<open>An error raised while the problem is built leaves \<open>solve_linear_mpc\<close> unchanged.\<close>

lemma solve_linear_mpc_build_error:
  "build_problem z_opt z_bar z0 d_opt = Inl e \<Longrightarrow>
   solve_linear_mpc solver z_opt z_bar z0 d_opt = ([], Inl e)"
  by (simp add: solve_linear_mpc_def)

text \<open>A reference with too few columns: \<open>z_opt[:, 3]\<close> raises IndexError before the solve.\<close>

lemma solve_linear_mpc_short_reference:
  "solve_linear_mpc solver (np_zeros 4 3) (np_zeros 4 7) [0, 0, 0, 0] (np_zeros 1 7)
     = ([], Inl IndexError)"
  by (simp add: solve_linear_mpc_def build_problem_def P_T_def upt_rec [of 0] upt_rec [of 1]
      upt_rec [of 2] upt_rec [of 3] qp_stage_def tracking_term_def mat_col_def mat_get_def
      state_shaped_def bind_err_def np_zeros_def P_NX_def numeral_eq_Suc)

text \<open>An initial state of three entries: \<open>z[:, 0] == z0\<close> raises ValueError.\<close>

lemma solve_linear_mpc_short_state:
  "solve_linear_mpc solver (np_zeros P_NX (P_T + 1)) (np_zeros P_NX (P_T + 1)) [0, 0, 0]
       (np_zeros 1 (P_T + 1))
     = ([], Inl ValueError)"
proof -
  let ?z = "replicate (P_T + 1) (0::real)"
  have st: "for_loop [0..<P_T] (qp_stage [?z, ?z, ?z, ?z] [?z, ?z, ?z, ?z] [?z]) []
         = Inr (map (\<lambda>t. calc_linear_discrete_model (?z ! t) (?z ! t) (?z ! t)) [0..<P_T])"
    by (rule build_stages_prefix) simp_all
  have tt: "tracking_term [?z, ?z, ?z, ?z] P_T = Inr ()"
    by (rule tracking_term_rows) simp_all
  have z: "state_shaped [0, 0, 0] = Inl ValueError"
    by (simp add: state_shaped_def P_NX_def)
  show ?thesis
    unfolding solve_linear_mpc_def build_problem_def np_zeros_rows st tt z bind_err_def
    by simp
qed

text \<open>
  C3, as the code has it. When the problem can be built from the arguments (no index or
  shape error is raised before the solver is called), \<open>solve_linear_mpc\<close> signals the failure
  (it prints the message and returns \<open>None\<close> for all six outputs) whenever the solver status
  is neither \<open>optimal\<close> nor \<open>optimal_inaccurate\<close>; with the status \<open>optimal_inaccurate\<close> it
  returns the rows of the solver's values, as with \<open>optimal\<close>.
\<close>

theorem solve_linear_mpc_failure_statuses:
  assumes "build_problem z_opt z_bar z0 d_opt = Inr problem"
  shows "(sol_status (solver problem) \<noteq> OPTIMAL \<and>
          sol_status (solver problem) \<noteq> OPTIMAL_INACCURATE
          \<longrightarrow> solve_linear_mpc solver z_opt z_bar z0 d_opt =
                ([''Cannot solve linear mpc''], Inr (None, None, None, None, None, None))) \<and>
         (sol_status (solver problem) = OPTIMAL_INACCURATE \<and>
          z_value (solver problem) = [ox, oy, ov, oyaw] \<and>
          u_value (solver problem) = [oa, odelta]
          \<longrightarrow> solve_linear_mpc solver z_opt z_bar z0 d_opt =
                ([], Inr (Some oa, Some odelta, Some ox, Some oy, Some oyaw, Some ov)))"
  using assms
  by (simp add: solve_linear_mpc_def Let_def bind_err_def mat_row_def numeral_3_eq_3)

lemma build_problem_zeros:
  "build_problem (np_zeros P_NX (P_T + 1)) (np_zeros P_NX (P_T + 1)) [0, 0, 0, 0]
       (np_zeros 1 (P_T + 1))
     = Inr \<lparr>qp_dynamics = map (\<lambda>t. calc_linear_discrete_model 0 0 0) [0..<P_T],
            qp_z_opt = np_zeros P_NX (P_T + 1), qp_z0 = [0, 0, 0, 0]\<rparr>"
proof -
  have m: "map (\<lambda>t. calc_linear_discrete_model (replicate (P_T + 1) 0 ! t)
                      (replicate (P_T + 1) 0 ! t) (replicate (P_T + 1) 0 ! t)) [0..<P_T]
           = map (\<lambda>t. calc_linear_discrete_model 0 0 0) [0..<P_T]"
    by (auto simp: nth_Cons')
  have "build_problem [replicate (P_T + 1) 0, replicate (P_T + 1) 0, replicate (P_T + 1) 0,
                       replicate (P_T + 1) 0]
          [replicate (P_T + 1) 0, replicate (P_T + 1) 0, replicate (P_T + 1) 0,
           replicate (P_T + 1) 0] [0, 0, 0, 0] [replicate (P_T + 1) 0]
     = Inr \<lparr>qp_dynamics =
              map (\<lambda>t. calc_linear_discrete_model (replicate (P_T + 1) 0 ! t)
                      (replicate (P_T + 1) 0 ! t) (replicate (P_T + 1) 0 ! t)) [0..<P_T],
            qp_z_opt = [replicate (P_T + 1) 0, replicate (P_T + 1) 0, replicate (P_T + 1) 0,
                        replicate (P_T + 1) 0],
            qp_z0 = [0, 0, 0, 0]\<rparr>"
    by (rule build_problem_shape) simp_all
  then show ?thesis
    unfolding m np_zeros_rows .
qed

theorem solve_linear_mpc_failure_statuses_witness:
  "build_problem (np_zeros P_NX (P_T + 1)) (np_zeros P_NX (P_T + 1)) [0, 0, 0, 0]
       (np_zeros 1 (P_T + 1))
     = Inr \<lparr>qp_dynamics = map (\<lambda>t. calc_linear_discrete_model 0 0 0) [0..<P_T],
            qp_z_opt = np_zeros P_NX (P_T + 1), qp_z0 = [0, 0, 0, 0]\<rparr> \<and>
   solve_linear_mpc infeasible_solver (np_zeros P_NX (P_T + 1)) (np_zeros P_NX (P_T + 1))
       [0, 0, 0, 0] (np_zeros 1 (P_T + 1))
     = ([''Cannot solve linear mpc''], Inr (None, None, None, None, None, None)) \<and>
   solve_linear_mpc inaccurate_solver (np_zeros P_NX (P_T + 1)) (np_zeros P_NX (P_T + 1))
       [0, 0, 0, 0] (np_zeros 1 (P_T + 1))
     = ([], Inr (Some (replicate P_T 0), Some (replicate P_T 0), Some (replicate (P_T + 1) 0),
                 Some (replicate (P_T + 1) 0), Some (replicate (P_T + 1) 0),
                 Some (replicate (P_T + 1) 0)))"
proof -
  let ?Z = "np_zeros P_NX (P_T + 1)"
  let ?D = "np_zeros 1 (P_T + 1)"
  let ?q = "\<lparr>qp_dynamics = map (\<lambda>t. calc_linear_discrete_model 0 0 0) [0..<P_T],
            qp_z_opt = np_zeros P_NX (P_T + 1), qp_z0 = [0, 0, 0, 0]\<rparr>"
  have h: "build_problem ?Z ?Z [0, 0, 0, 0] ?D = Inr ?q" by (rule build_problem_zeros)
  have a: "solve_linear_mpc infeasible_solver ?Z ?Z [0, 0, 0, 0] ?D
     = ([''Cannot solve linear mpc''], Inr (None, None, None, None, None, None))"
    using solve_linear_mpc_failure_statuses [OF h, of infeasible_solver]
    by (simp add: infeasible_solver_def)
  have b: "solve_linear_mpc inaccurate_solver ?Z ?Z [0, 0, 0, 0] ?D
     = ([], Inr (Some (replicate P_T 0), Some (replicate P_T 0), Some (replicate (P_T + 1) 0),
                 Some (replicate (P_T + 1) 0), Some (replicate (P_T + 1) 0),
                 Some (replicate (P_T + 1) 0)))"
    using solve_linear_mpc_failure_statuses [OF h, of inaccurate_solver
        "replicate (P_T + 1) 0" "replicate (P_T + 1) 0" "replicate (P_T + 1) 0"
        "replicate (P_T + 1) 0" "replicate P_T 0" "replicate P_T 0"]
    by (simp add: inaccurate_solver_def np_zeros_def P_NX_def P_NU_def numeral_eq_Suc)
  from h a b show ?thesis by (intro conjI)
qed

text \<open>
  C3 as stated fails: with the status \<open>optimal_inaccurate\<close>, which is not \<open>optimal\<close>,
  \<open>solve_linear_mpc\<close> prints nothing and returns the solver's arrays, not \<open>None\<close>.
\<close>

theorem solve_linear_mpc_inaccurate_succeeds:
  "sol_status (inaccurate_solver
      \<lparr>qp_dynamics = map (\<lambda>t. calc_linear_discrete_model 0 0 0) [0..<P_T],
       qp_z_opt = np_zeros P_NX (P_T + 1), qp_z0 = [0, 0, 0, 0]\<rparr>) = OPTIMAL_INACCURATE \<and>
   solve_linear_mpc inaccurate_solver (np_zeros P_NX (P_T + 1)) (np_zeros P_NX (P_T + 1))
       [0, 0, 0, 0] (np_zeros 1 (P_T + 1))
     = ([], Inr (Some (replicate P_T 0), Some (replicate P_T 0), Some (replicate (P_T + 1) 0),
                 Some (replicate (P_T + 1) 0), Some (replicate (P_T + 1) 0),
                 Some (replicate (P_T + 1) 0)))"
  unfolding solve_linear_mpc_def build_problem_zeros
  by (simp add: inaccurate_solver_def Let_def bind_err_def mat_row_def np_zeros_def P_NX_def
      P_NU_def numeral_eq_Suc)

subsection \<open>predict\_model\<close>

lemma store_set_new:
  "store_set (h @ [m]) (length h) r c v = bind_err (mat_set m r c v) (\<lambda>m'. Inr (h @ [m']))"
  by (simp add: store_set_def)

lemma predict_step_eval:
  assumes "i < length s0" and "i < length s1" and "i < length s2" and "i < length s3"
  shows "predict_step (length h) (ai, di, i) (node, h @ [[s0, s1, s2, s3]]) =
     (let node' = Node_update node ai di 1
      in Inr (node', h @ [[s0[i := node_x node'], s1[i := node_y node'],
                           s2[i := node_v node'], s3[i := node_yaw node']]]))"
  using assms
  by (simp add: predict_step_def store_set_new Let_def bind_err_def mat_set_4)

lemma drive_Cons: "drive node ((x, y) # us) = drive (Node_update node x y 1) us"
  by (simp add: drive_def)

lemma predict_loop:
  assumes "length s0 = n" and "length s1 = n" and "length s2 = n" and "length s3 = n"
    and "m \<le> n"
  shows "\<exists>t0 t1 t2 t3.
           for_loop (zip a (zip delta [i..<m])) (predict_step (length h))
               (node, h @ [[s0, s1, s2, s3]])
             = Inr (drive node (take (m - i) (zip a delta)), h @ [[t0, t1, t2, t3]]) \<and>
           length t0 = n \<and> length t1 = n \<and> length t2 = n \<and> length t3 = n \<and>
           (\<forall>j<i. t0 ! j = s0 ! j \<and> t1 ! j = s1 ! j \<and> t2 ! j = s2 ! j \<and> t3 ! j = s3 ! j) \<and>
           (\<forall>j. i \<le> j \<and> j < i + min (length a) (min (length delta) (m - i)) \<longrightarrow>
              t0 ! j = node_x (drive node (take (Suc (j - i)) (zip a delta))) \<and>
              t1 ! j = node_y (drive node (take (Suc (j - i)) (zip a delta))) \<and>
              t2 ! j = node_v (drive node (take (Suc (j - i)) (zip a delta))) \<and>
              t3 ! j = node_yaw (drive node (take (Suc (j - i)) (zip a delta))))"
  using assms
proof (induction a arbitrary: delta i node s0 s1 s2 s3)
  case Nil
  then show ?case by (simp add: drive_def)
next
  case (Cons x xs)
  show ?case
  proof (cases delta)
    case Nil
    with Cons.prems show ?thesis by (simp add: drive_def)
  next
    case (Cons y ys)
    note dl = this
    show ?thesis
    proof (cases "i < m")
      case False
      with Cons.prems show ?thesis by (simp add: drive_def)
    next
      case True
      define node' where "node' = Node_update node x y 1"
      define u0 where "u0 = s0[i := node_x node']"
      define u1 where "u1 = s1[i := node_y node']"
      define u2 where "u2 = s2[i := node_v node']"
      define u3 where "u3 = s3[i := node_yaw node']"
      have il: "i < length s0" "i < length s1" "i < length s2" "i < length s3"
        using True Cons.prems by auto
      have step: "predict_step (length h) (x, y, i) (node, h @ [[s0, s1, s2, s3]])
                    = Inr (node', h @ [[u0, u1, u2, u3]])"
        using predict_step_eval [OF il, of h x y node]
        by (simp add: Let_def node'_def u0_def u1_def u2_def u3_def)
      have ul: "length u0 = n" "length u1 = n" "length u2 = n" "length u3 = n"
        using Cons.prems by (simp_all add: u0_def u1_def u2_def u3_def)
      obtain t0 t1 t2 t3 where
        run: "for_loop (zip xs (zip ys [Suc i..<m])) (predict_step (length h))
               (node', h @ [[u0, u1, u2, u3]])
             = Inr (drive node' (take (m - Suc i) (zip xs ys)), h @ [[t0, t1, t2, t3]])"
        and tl: "length t0 = n" "length t1 = n" "length t2 = n" "length t3 = n"
        and keep: "\<forall>j<Suc i. t0 ! j = u0 ! j \<and> t1 ! j = u1 ! j \<and> t2 ! j = u2 ! j \<and> t3 ! j = u3 ! j"
        and new: "\<forall>j. Suc i \<le> j \<and> j < Suc i + min (length xs) (min (length ys) (m - Suc i)) \<longrightarrow>
              t0 ! j = node_x (drive node' (take (Suc (j - Suc i)) (zip xs ys))) \<and>
              t1 ! j = node_y (drive node' (take (Suc (j - Suc i)) (zip xs ys))) \<and>
              t2 ! j = node_v (drive node' (take (Suc (j - Suc i)) (zip xs ys))) \<and>
              t3 ! j = node_yaw (drive node' (take (Suc (j - Suc i)) (zip xs ys)))"
        using Cons.IH [OF ul \<open>m \<le> n\<close>, of ys "Suc i" node'] by blast
      have mi: "m - i = Suc (m - Suc i)" using True by simp
      have r1: "for_loop (zip (x # xs) (zip delta [i..<m])) (predict_step (length h))
               (node, h @ [[s0, s1, s2, s3]])
             = Inr (drive node (take (m - i) (zip (x # xs) delta)), h @ [[t0, t1, t2, t3]])"
        using True run unfolding dl mi
        by (simp add: upt_conv_Cons step drive_Cons node'_def)
      have r2: "\<forall>j<i. t0 ! j = s0 ! j \<and> t1 ! j = s1 ! j \<and> t2 ! j = s2 ! j \<and> t3 ! j = s3 ! j"
        using keep by (simp add: u0_def u1_def u2_def u3_def)
      have r3: "\<forall>j. i \<le> j \<and> j < i + min (length (x # xs)) (min (length delta) (m - i)) \<longrightarrow>
              t0 ! j = node_x (drive node (take (Suc (j - i)) (zip (x # xs) delta))) \<and>
              t1 ! j = node_y (drive node (take (Suc (j - i)) (zip (x # xs) delta))) \<and>
              t2 ! j = node_v (drive node (take (Suc (j - i)) (zip (x # xs) delta))) \<and>
              t3 ! j = node_yaw (drive node (take (Suc (j - i)) (zip (x # xs) delta)))"
      proof (intro allI impI)
        fix j
        assume j: "i \<le> j \<and> j < i + min (length (x # xs)) (min (length delta) (m - i))"
        show "t0 ! j = node_x (drive node (take (Suc (j - i)) (zip (x # xs) delta))) \<and>
              t1 ! j = node_y (drive node (take (Suc (j - i)) (zip (x # xs) delta))) \<and>
              t2 ! j = node_v (drive node (take (Suc (j - i)) (zip (x # xs) delta))) \<and>
              t3 ! j = node_yaw (drive node (take (Suc (j - i)) (zip (x # xs) delta)))"
        proof (cases "j = i")
          case True
          then show ?thesis
            using keep il unfolding dl
            by (simp add: u0_def u1_def u2_def u3_def drive_Cons node'_def drive_def)
        next
          case False
          then have a: "Suc i \<le> j \<and> j < Suc i + min (length xs) (min (length ys) (m - Suc i))"
            using j unfolding dl by auto
          have b: "j - i = Suc (j - Suc i)" using False j by auto
          show ?thesis
            using new [rule_format, OF a] unfolding dl b
            by (simp add: drive_Cons node'_def)
        qed
      qed
      from r1 tl r2 r3 show ?thesis by blast
    qed
  qed
qed


lemma list_of_length_4:
  assumes "length xs = 4"
  obtains a b c d where "xs = [a, b, c, d]"
proof -
  from assms obtain a ys where 1: "xs = a # ys" "length ys = 3"
    by (cases xs) auto
  then obtain b zs where 2: "ys = b # zs" "length zs = 2"
    by (cases ys) auto
  then obtain c ws where 3: "zs = c # ws" "length ws = 1"
    by (cases zs) auto
  then obtain d where 4: "ws = [d]"
    by (cases ws) auto
  from 1 2 3 4 that show thesis by simp
qed

lemma predict_model_rows:
  assumes shape: "h ! p = [m0, m1, m2, m3]"
    and ml: "length m0 = P_T + 1" "length m1 = P_T + 1" "length m2 = P_T + 1"
      "length m3 = P_T + 1"
  shows "\<exists>t0 t1 t2 t3.
           predict_model h [x0, y0, v0, yaw0] a delta p = Inr (h @ [[t0, t1, t2, t3]], length h) \<and>
           length t0 = P_T + 1 \<and> length t1 = P_T + 1 \<and> length t2 = P_T + 1 \<and>
           length t3 = P_T + 1 \<and>
           t0 ! 0 = x0 \<and> t1 ! 0 = y0 \<and> t2 ! 0 = v0 \<and> t3 ! 0 = yaw0 \<and>
           (\<forall>j. 1 \<le> j \<and> j \<le> min (length a) (min (length delta) P_T) \<longrightarrow>
              t0 ! j = node_x (drive \<lparr>node_x = x0, node_y = y0, node_yaw = yaw0, node_v = v0,
                                      node_direct = 1\<rparr> (take j (zip a delta))) \<and>
              t1 ! j = node_y (drive \<lparr>node_x = x0, node_y = y0, node_yaw = yaw0, node_v = v0,
                                      node_direct = 1\<rparr> (take j (zip a delta))) \<and>
              t2 ! j = node_v (drive \<lparr>node_x = x0, node_y = y0, node_yaw = yaw0, node_v = v0,
                                      node_direct = 1\<rparr> (take j (zip a delta))) \<and>
              t3 ! j = node_yaw (drive \<lparr>node_x = x0, node_y = y0, node_yaw = yaw0, node_v = v0,
                                        node_direct = 1\<rparr> (take j (zip a delta))))"
proof -
  define n where "n = P_T + 1"
  define node where
    "node = \<lparr>node_x = x0, node_y = y0, node_yaw = yaw0, node_v = v0, node_direct = 1\<rparr>"
  define s0 where "s0 = (replicate n (0::real))[0 := x0]"
  define s1 where "s1 = (replicate n (0::real))[0 := y0]"
  define s2 where "s2 = (replicate n (0::real))[0 := v0]"
  define s3 where "s3 = (replicate n (0::real))[0 := yaw0]"
  have n0: "0 < n" by (simp add: n_def)
  have sl: "length s0 = n" "length s1 = n" "length s2 = n" "length s3 = n"
    by (simp_all add: s0_def s1_def s2_def s3_def)
  have zb: "map (map (\<lambda>x. x * 0)) (h ! p)
              = [replicate n 0, replicate n 0, replicate n 0, replicate n (0::real)]"
    unfolding shape using ml by (simp add: n_def map_replicate_const)
  have first: "for_loop [0..<length [x0, y0, v0, yaw0]]
                 (\<lambda>i h'. store_set h' (length h) i 0 ([x0, y0, v0, yaw0] ! i))
                 (h @ [[replicate n 0, replicate n 0, replicate n 0, replicate n 0]])
               = Inr (h @ [[s0, s1, s2, s3]])"
    using n0
    by (simp add: store_set_new bind_err_def mat_set_def s0_def s1_def s2_def s3_def)
  have rd: "py_index [x0, y0, v0, yaw0] 0 = Inr x0" "py_index [x0, y0, v0, yaw0] 1 = Inr y0"
    "py_index [x0, y0, v0, yaw0] 2 = Inr v0" "py_index [x0, y0, v0, yaw0] 3 = Inr yaw0"
    by (simp_all add: py_index_def)
  obtain t0 t1 t2 t3 where
    run: "for_loop (zip a (zip delta [1..<n])) (predict_step (length h))
               (node, h @ [[s0, s1, s2, s3]])
             = Inr (drive node (take (n - 1) (zip a delta)), h @ [[t0, t1, t2, t3]])"
    and tl: "length t0 = n" "length t1 = n" "length t2 = n" "length t3 = n"
    and keep: "\<forall>j<1. t0 ! j = s0 ! j \<and> t1 ! j = s1 ! j \<and> t2 ! j = s2 ! j \<and> t3 ! j = s3 ! j"
    and new: "\<forall>j. 1 \<le> j \<and> j < 1 + min (length a) (min (length delta) (n - 1)) \<longrightarrow>
              t0 ! j = node_x (drive node (take (Suc (j - 1)) (zip a delta))) \<and>
              t1 ! j = node_y (drive node (take (Suc (j - 1)) (zip a delta))) \<and>
              t2 ! j = node_v (drive node (take (Suc (j - 1)) (zip a delta))) \<and>
              t3 ! j = node_yaw (drive node (take (Suc (j - 1)) (zip a delta)))"
    using predict_loop [OF sl, of n a delta 1 h node] by blast
  have res: "predict_model h [x0, y0, v0, yaw0] a delta p = Inr (h @ [[t0, t1, t2, t3]], length h)"
    unfolding predict_model_def store_new_def zb prod.case first rd bind_err_def sum.case
      Let_def node_def [symmetric] n_def [symmetric] run
    by simp
  have c0: "t0 ! 0 = x0" "t1 ! 0 = y0" "t2 ! 0 = v0" "t3 ! 0 = yaw0"
    using keep n0 by (simp_all add: s0_def s1_def s2_def s3_def)
  have cols: "\<forall>j. 1 \<le> j \<and> j \<le> min (length a) (min (length delta) P_T) \<longrightarrow>
              t0 ! j = node_x (drive node (take j (zip a delta))) \<and>
              t1 ! j = node_y (drive node (take j (zip a delta))) \<and>
              t2 ! j = node_v (drive node (take j (zip a delta))) \<and>
              t3 ! j = node_yaw (drive node (take j (zip a delta)))"
  proof (intro allI impI)
    fix j assume j: "1 \<le> j \<and> j \<le> min (length a) (min (length delta) P_T)"
    then have a: "1 \<le> j \<and> j < 1 + min (length a) (min (length delta) (n - 1))"
      by (auto simp: n_def)
    have b: "Suc (j - 1) = j" using j by simp
    show "t0 ! j = node_x (drive node (take j (zip a delta))) \<and>
              t1 ! j = node_y (drive node (take j (zip a delta))) \<and>
              t2 ! j = node_v (drive node (take j (zip a delta))) \<and>
              t3 ! j = node_yaw (drive node (take j (zip a delta)))"
      using new [rule_format, OF a] unfolding b .
  qed
  show ?thesis
    using res tl c0 cols unfolding n_def node_def by blast
qed


text \<open>
  C10. Let \<open>z_opt\<close> refer to an array of \<open>NX\<close> rows and \<open>T + 1\<close> columns and let \<open>z0\<close> have
  \<open>NX\<close> entries. Then \<open>predict_model\<close> raises nothing; it returns a reference \<open>z_bar\<close> that
  did not exist before (so \<open>z_bar \<noteq> z_opt\<close>), every array of the store before the call,
  \<open>z_opt\<close> among them, is unchanged; column 0 of \<open>z_bar\<close> is \<open>z0\<close>; and column \<open>i\<close>, for
  \<open>1 \<le> i \<le> min(len(a), len(delta), T)\<close>, is the state \<open>(x, y, v, yaw)\<close> after \<open>i\<close> calls of
  \<open>Node.update\<close> with \<open>direct = 1\<close> from the node built from \<open>z0\<close>: no gear is read from
  anywhere.
\<close>

theorem predict_model_fresh_forward:
  assumes "z_opt < length h" and "length (h ! z_opt) = P_NX"
    and "\<forall>row\<in>set (h ! z_opt). length row = P_T + 1" and "length z0 = P_NX"
  shows "\<exists>h' z_bar.
           predict_model h z0 a delta z_opt = Inr (h', z_bar) \<and>
           z_bar = length h \<and> z_bar \<noteq> z_opt \<and> take (length h) h' = h \<and>
           h' ! z_opt = h ! z_opt \<and>
           (\<forall>r<P_NX. h' ! z_bar ! r ! 0 = z0 ! r) \<and>
           (\<forall>i. 1 \<le> i \<and> i \<le> min (length a) (min (length delta) P_T) \<longrightarrow>
              h' ! z_bar ! 0 ! i =
                node_x (drive \<lparr>node_x = z0 ! 0, node_y = z0 ! 1, node_yaw = z0 ! 3,
                               node_v = z0 ! 2, node_direct = 1\<rparr> (take i (zip a delta))) \<and>
              h' ! z_bar ! 1 ! i =
                node_y (drive \<lparr>node_x = z0 ! 0, node_y = z0 ! 1, node_yaw = z0 ! 3,
                               node_v = z0 ! 2, node_direct = 1\<rparr> (take i (zip a delta))) \<and>
              h' ! z_bar ! 2 ! i =
                node_v (drive \<lparr>node_x = z0 ! 0, node_y = z0 ! 1, node_yaw = z0 ! 3,
                               node_v = z0 ! 2, node_direct = 1\<rparr> (take i (zip a delta))) \<and>
              h' ! z_bar ! 3 ! i =
                node_yaw (drive \<lparr>node_x = z0 ! 0, node_y = z0 ! 1, node_yaw = z0 ! 3,
                                 node_v = z0 ! 2, node_direct = 1\<rparr> (take i (zip a delta))))"
proof -
  have "length (h ! z_opt) = 4" using assms(2) by (simp add: P_NX_def)
  then obtain m0 m1 m2 m3 where m: "h ! z_opt = [m0, m1, m2, m3]"
    by (rule list_of_length_4)
  have "length z0 = 4" using assms(4) by (simp add: P_NX_def)
  then obtain x0 y0 v0 yaw0 where z: "z0 = [x0, y0, v0, yaw0]"
    by (rule list_of_length_4)
  have ml: "length m0 = P_T + 1" "length m1 = P_T + 1" "length m2 = P_T + 1"
    "length m3 = P_T + 1"
    using assms(3) unfolding m by simp_all
  define node where
    "node = \<lparr>node_x = x0, node_y = y0, node_yaw = yaw0, node_v = v0, node_direct = 1\<rparr>"
  obtain t0 t1 t2 t3 where
    res: "predict_model h [x0, y0, v0, yaw0] a delta z_opt
            = Inr (h @ [[t0, t1, t2, t3]], length h)"
    and c0: "t0 ! 0 = x0" "t1 ! 0 = y0" "t2 ! 0 = v0" "t3 ! 0 = yaw0"
    and cols: "\<forall>j. 1 \<le> j \<and> j \<le> min (length a) (min (length delta) P_T) \<longrightarrow>
              t0 ! j = node_x (drive node (take j (zip a delta))) \<and>
              t1 ! j = node_y (drive node (take j (zip a delta))) \<and>
              t2 ! j = node_v (drive node (take j (zip a delta))) \<and>
              t3 ! j = node_yaw (drive node (take j (zip a delta)))"
    using predict_model_rows [OF m ml, of x0 y0 v0 yaw0 a delta] unfolding node_def by blast
  define h' where "h' = h @ [[t0, t1, t2, t3]]"
  have zb: "h' ! length h = [t0, t1, t2, t3]" by (simp add: h'_def)
  have nd: "\<lparr>node_x = z0 ! 0, node_y = z0 ! 1, node_yaw = z0 ! 3, node_v = z0 ! 2,
             node_direct = 1\<rparr> = node"
    by (simp add: z node_def numeral_3_eq_3 numeral_2_eq_2)
  have 1: "predict_model h z0 a delta z_opt = Inr (h', length h)"
    using res by (simp add: z h'_def)
  have 2: "length h \<noteq> z_opt" "take (length h) h' = h" "h' ! z_opt = h ! z_opt"
    using assms(1) by (simp_all add: h'_def nth_append)
  have 3: "\<forall>r<P_NX. h' ! length h ! r ! 0 = z0 ! r"
    unfolding zb z using c0 by (auto simp: P_NX_def less_Suc_eq numeral_eq_Suc)
  have 4: "\<forall>i. 1 \<le> i \<and> i \<le> min (length a) (min (length delta) P_T) \<longrightarrow>
              h' ! length h ! 0 ! i = node_x (drive node (take i (zip a delta))) \<and>
              h' ! length h ! 1 ! i = node_y (drive node (take i (zip a delta))) \<and>
              h' ! length h ! 2 ! i = node_v (drive node (take i (zip a delta))) \<and>
              h' ! length h ! 3 ! i = node_yaw (drive node (take i (zip a delta)))"
    unfolding zb using cols by (simp add: numeral_3_eq_3 numeral_2_eq_2)
  show ?thesis
    unfolding nd using 1 2 3 4 by blast
qed

theorem predict_model_fresh_forward_witness:
  "(0::nat) < length [np_zeros P_NX (P_T + 1)] \<and>
   length ([np_zeros P_NX (P_T + 1)] ! 0) = P_NX \<and>
   length [1, 2, 3, 0 :: real] = P_NX \<and>
   (\<exists>h' z_bar. predict_model [np_zeros P_NX (P_T + 1)] [1, 2, 3, 0] (replicate P_T 1)
                  (replicate P_T 0) 0 = Inr (h', z_bar) \<and>
      z_bar = 1 \<and> h' ! 0 = np_zeros P_NX (P_T + 1) \<and>
      h' ! z_bar ! 2 ! 0 = 3 \<and> h' ! z_bar ! 2 ! 1 = 3.2 \<and> h' ! z_bar ! 0 ! 1 = 1.6)"
proof -
  let ?h = "[np_zeros P_NX (P_T + 1)]"
  have h1: "(0::nat) < length ?h" by simp
  have h2: "length (?h ! 0) = P_NX" by (simp add: np_zeros_def)
  have h3: "\<forall>row\<in>set (?h ! 0). length row = P_T + 1" by (simp add: np_zeros_def)
  have h4: "length [1, 2, 3, 0 :: real] = P_NX" by (simp add: P_NX_def)
  obtain h' z_bar where
    a: "predict_model ?h [1, 2, 3, 0] (replicate P_T 1) (replicate P_T 0) 0 = Inr (h', z_bar)"
    and b: "z_bar = length ?h" "h' ! 0 = ?h ! 0"
    and c: "\<forall>r<P_NX. h' ! z_bar ! r ! 0 = [1, 2, 3, 0 :: real] ! r"
    and d: "\<forall>i. 1 \<le> i \<and> i \<le> min (length (replicate P_T (1::real)))
                               (min (length (replicate P_T (0::real))) P_T) \<longrightarrow>
              h' ! z_bar ! 0 ! i =
                node_x (drive \<lparr>node_x = [1, 2, 3, 0] ! 0, node_y = [1, 2, 3, 0] ! 1,
                               node_yaw = [1, 2, 3, 0] ! 3, node_v = [1, 2, 3, 0] ! 2,
                               node_direct = 1\<rparr>
                         (take i (zip (replicate P_T 1) (replicate P_T 0)))) \<and>
              h' ! z_bar ! 1 ! i =
                node_y (drive \<lparr>node_x = [1, 2, 3, 0] ! 0, node_y = [1, 2, 3, 0] ! 1,
                               node_yaw = [1, 2, 3, 0] ! 3, node_v = [1, 2, 3, 0] ! 2,
                               node_direct = 1\<rparr>
                         (take i (zip (replicate P_T 1) (replicate P_T 0)))) \<and>
              h' ! z_bar ! 2 ! i =
                node_v (drive \<lparr>node_x = [1, 2, 3, 0] ! 0, node_y = [1, 2, 3, 0] ! 1,
                               node_yaw = [1, 2, 3, 0] ! 3, node_v = [1, 2, 3, 0] ! 2,
                               node_direct = 1\<rparr>
                         (take i (zip (replicate P_T 1) (replicate P_T 0)))) \<and>
              h' ! z_bar ! 3 ! i =
                node_yaw (drive \<lparr>node_x = [1, 2, 3, 0] ! 0, node_y = [1, 2, 3, 0] ! 1,
                               node_yaw = [1, 2, 3, 0] ! 3, node_v = [1, 2, 3, 0] ! 2,
                               node_direct = 1\<rparr>
                         (take i (zip (replicate P_T 1) (replicate P_T 0))))"
    using predict_model_fresh_forward [OF h1 h2 h3 h4, of "replicate P_T 1" "replicate P_T 0"]
    by blast
  have c2: "h' ! z_bar ! 2 ! 0 = 3"
    using c [rule_format, of 2] by (simp add: P_NX_def)
  have tk: "take 1 (zip (replicate P_T (1::real)) (replicate P_T (0::real))) = [(1, 0)]"
    by (simp add: P_T_def numeral_eq_Suc)
  have d1: "h' ! z_bar ! 2 ! 1 = 3.2" "h' ! z_bar ! 0 ! 1 = 1.6"
    using d [rule_format, of 1] unfolding tk
    by (simp_all add: P_T_def drive_def Node_update_def Let_def P_dt_def)
  show ?thesis
    using h2 h4 a b c2 d1 by simp
qed

subsection \<open>linear\_mpc\_control and the tick of main\<close>

lemma solve_linear_mpc_log:
  "solve_linear_mpc solver z_opt z_bar z0 d_opt = (out, Inr (Some noa, r)) \<Longrightarrow> out = []"
  by (auto simp: solve_linear_mpc_def Let_def split: sum.splits if_splits)

lemma mpc_pass_log:
  assumes "snd (mpc_pass solver z_opt z0 d_opt oa od) = Inr r"
  shows "fst (mpc_pass solver z_opt z0 d_opt oa od) = []"
proof (cases "predict_model_value z0 oa od z_opt")
  case (Inl e)
  with assms show ?thesis by (simp add: mpc_pass_def)
next
  case (Inr z_bar)
  obtain out res where s: "solve_linear_mpc solver z_opt z_bar z0 d_opt = (out, res)"
    by (cases "solve_linear_mpc solver z_opt z_bar z0 d_opt")
  show ?thesis
  proof (cases res)
    case (Inl e)
    with assms Inr s show ?thesis by (simp add: mpc_pass_def)
  next
    case r: (Inr t)
    obtain oa' rest where t: "t = (oa', rest)" by (cases t)
    show ?thesis
    proof (cases oa')
      case None
      with assms Inr s r t show ?thesis
        by (auto simp: mpc_pass_def split: prod.splits)
    next
      case (Some noa)
      with s r t have "out = []" using solve_linear_mpc_log by blast
      with Inr s show ?thesis by (simp add: mpc_pass_def split: prod.splits sum.splits)
    qed
  qed
qed

lemma mpc_pass_split:
  assumes "snd (mpc_pass solver z_opt z0 d_opt oa od) = Inr r"
  shows "mpc_pass solver z_opt z0 d_opt oa od = ([], Inr r)"
  using assms mpc_pass_log [OF assms] by (cases "mpc_pass solver z_opt z0 d_opt oa od") simp


lemma mpc_iterations_raise:
  assumes "k < n"
    and "\<forall>j<k. not_converged (mpc_candidate j solver z_opt z0 d_opt oa od)"
    and "mpc_candidate k solver z_opt z0 d_opt oa od = Inl e"
  shows "snd (mpc_iterations n solver z_opt z0 d_opt oa od latest) = Inl e"
  using assms
proof (induction k arbitrary: n oa od latest)
  case 0
  then obtain n' where n: "n = Suc n'" by (cases n) auto
  from 0 show ?case
    by (cases "mpc_pass solver z_opt z0 d_opt oa od") (simp add: n)
next
  case (Suc k)
  then obtain n' where n: "n = Suc n'" and kn: "k < n'" by (cases n) auto
  from Suc.prems(2) have nc: "not_converged (mpc_candidate 0 solver z_opt z0 d_opt oa od)"
    by blast
  then obtain a1 d1 r1 du1 where
    c0: "snd (mpc_pass solver z_opt z0 d_opt oa od) = Inr (a1, d1, r1, du1)"
    and big: "du1 > P_DU_TH"
    by (auto simp: not_converged_def split: sum.splits)
  have p: "mpc_pass solver z_opt z0 d_opt oa od = ([], Inr (a1, d1, r1, du1))"
    using c0 by (rule mpc_pass_split)
  have shift: "\<And>j. mpc_candidate (Suc j) solver z_opt z0 d_opt oa od
                    = mpc_candidate j solver z_opt z0 d_opt a1 d1"
    by (simp add: c0)
  have 1: "\<forall>j<k. not_converged (mpc_candidate j solver z_opt z0 d_opt a1 d1)"
    using Suc.prems(2) shift by (metis Suc_less_eq)
  have 2: "mpc_candidate k solver z_opt z0 d_opt a1 d1 = Inl e"
    using Suc.prems(3) shift by simp
  have "snd (mpc_iterations n' solver z_opt z0 d_opt a1 d1 (Some r1)) = Inl e"
    by (rule Suc.IH [OF kn 1 2])
  then show ?case
    using big by (simp add: n p split: prod.splits)
qed

lemma linear_mpc_control_seed:
  "linear_mpc_control solver z_opt z0 d_opt oa od =
     mpc_iterations P_MAX_ITER solver z_opt z0 d_opt
       (fst (seed_controls oa od)) (snd (seed_controls oa od)) None"
  by (simp add: linear_mpc_control_def seed_controls_def split: option.splits)


lemma predict_model_value_rows:
  assumes "length m0 = P_T + 1" and "length m1 = P_T + 1" and "length m2 = P_T + 1"
    and "length m3 = P_T + 1"
  shows "\<exists>t0 t1 t2 t3.
           predict_model_value [x0, y0, v0, yaw0] a delta [m0, m1, m2, m3] = Inr [t0, t1, t2, t3] \<and>
           length t0 = P_T + 1 \<and> length t1 = P_T + 1 \<and> length t2 = P_T + 1 \<and>
           length t3 = P_T + 1 \<and>
           (\<forall>j. 1 \<le> j \<and> j \<le> min (length a) (min (length delta) P_T) \<longrightarrow>
              t2 ! j = node_v (drive \<lparr>node_x = x0, node_y = y0, node_yaw = yaw0, node_v = v0,
                                      node_direct = 1\<rparr> (take j (zip a delta))) \<and>
              t3 ! j = node_yaw (drive \<lparr>node_x = x0, node_y = y0, node_yaw = yaw0, node_v = v0,
                                        node_direct = 1\<rparr> (take j (zip a delta))))"
proof -
  have sh: "[[m0, m1, m2, m3]] ! 0 = [m0, m1, m2, m3]" by simp
  obtain t0 t1 t2 t3 where
    "predict_model [[m0, m1, m2, m3]] [x0, y0, v0, yaw0] a delta 0
       = Inr ([[m0, m1, m2, m3]] @ [[t0, t1, t2, t3]], length [[m0, m1, m2, m3]])"
    "length t0 = P_T + 1" "length t1 = P_T + 1" "length t2 = P_T + 1" "length t3 = P_T + 1"
    "\<forall>j. 1 \<le> j \<and> j \<le> min (length a) (min (length delta) P_T) \<longrightarrow>
              t0 ! j = node_x (drive \<lparr>node_x = x0, node_y = y0, node_yaw = yaw0, node_v = v0,
                                      node_direct = 1\<rparr> (take j (zip a delta))) \<and>
              t1 ! j = node_y (drive \<lparr>node_x = x0, node_y = y0, node_yaw = yaw0, node_v = v0,
                                      node_direct = 1\<rparr> (take j (zip a delta))) \<and>
              t2 ! j = node_v (drive \<lparr>node_x = x0, node_y = y0, node_yaw = yaw0, node_v = v0,
                                      node_direct = 1\<rparr> (take j (zip a delta))) \<and>
              t3 ! j = node_yaw (drive \<lparr>node_x = x0, node_y = y0, node_yaw = yaw0, node_v = v0,
                                        node_direct = 1\<rparr> (take j (zip a delta)))"
    using predict_model_rows [OF sh assms, of x0 y0 v0 yaw0 a delta] by blast
  then show ?thesis
    by (intro exI [of _ t0] exI [of _ t1] exI [of _ t2] exI [of _ t3])
       (simp add: predict_model_value_def bind_err_def)
qed

lemma mpc_pass_solve_failure:
  assumes ml: "length m0 = P_T + 1" "length m1 = P_T + 1" "length m2 = P_T + 1"
      "length m3 = P_T + 1"
    and el: "P_T \<le> length e"
    and bad: "\<And>prob. sol_status (solver prob) \<noteq> OPTIMAL \<and>
                      sol_status (solver prob) \<noteq> OPTIMAL_INACCURATE"
  shows "mpc_pass solver [m0, m1, m2, m3] [x0, y0, v0, yaw0] (e # es) oa od
           = ([''Cannot solve linear mpc''], Inl TypeError)"
proof -
  obtain t0 t1 t2 t3 where
    pm: "predict_model_value [x0, y0, v0, yaw0] oa od [m0, m1, m2, m3] = Inr [t0, t1, t2, t3]"
    and tl: "length t2 = P_T + 1" "length t3 = P_T + 1"
    using predict_model_value_rows [OF ml, of x0 y0 v0 yaw0 oa od] by blast
  have lm: "build_problem [m0, m1, m2, m3] [t0, t1, t2, t3] [x0, y0, v0, yaw0] (e # es)
         = Inr \<lparr>qp_dynamics =
                  map (\<lambda>t. calc_linear_discrete_model (t2 ! t) (t3 ! t) (e ! t)) [0..<P_T],
                qp_z_opt = [m0, m1, m2, m3], qp_z0 = [x0, y0, v0, yaw0]\<rparr>"
    using ml tl el by (intro build_problem_shape) simp_all
  have sv: "solve_linear_mpc solver [m0, m1, m2, m3] [t0, t1, t2, t3] [x0, y0, v0, yaw0] (e # es)
        = ([''Cannot solve linear mpc''], Inr (None, None, None, None, None, None))"
    unfolding solve_linear_mpc_def lm using bad by (simp add: Let_def)
  show ?thesis
    unfolding mpc_pass_def pm sum.case Let_def sv by simp
qed













text \<open>
  An error raised in pass \<open>k + 1\<close>, after \<open>k\<close> passes that did not converge, leaves
  \<open>linear_mpc_control\<close>: nothing in the loop catches it.
\<close>

lemma linear_mpc_control_raises:
  assumes "k < P_MAX_ITER"
    and "\<forall>j<k. not_converged (mpc_candidate j solver z_opt z0 d_opt
                   (fst (seed_controls oa od)) (snd (seed_controls oa od)))"
    and "mpc_candidate k solver z_opt z0 d_opt
           (fst (seed_controls oa od)) (snd (seed_controls oa od)) = Inl e"
  shows "snd (linear_mpc_control solver z_opt z0 d_opt oa od) = Inl e"
  unfolding linear_mpc_control_seed
  by (rule mpc_iterations_raise [OF assms])

lemma linear_mpc_control_solve_failure:
  assumes ml: "length m0 = P_T + 1" "length m1 = P_T + 1" "length m2 = P_T + 1"
      "length m3 = P_T + 1"
    and el: "P_T \<le> length e"
    and bad: "\<And>prob. sol_status (solver prob) \<noteq> OPTIMAL \<and>
                      sol_status (solver prob) \<noteq> OPTIMAL_INACCURATE"
  shows "linear_mpc_control solver [m0, m1, m2, m3] [x0, y0, v0, yaw0] (e # es) oa od
           = ([''Cannot solve linear mpc''], Inl TypeError)"
proof -
  have n: "P_MAX_ITER = Suc 4" by (simp add: P_MAX_ITER_def)
  show ?thesis
    unfolding linear_mpc_control_seed n mpc_iterations.simps
      mpc_pass_solve_failure [OF ml el bad]
    by simp
qed

lemma main_tick_solve_failure:
  assumes wf: "wf_PATH (sim_path s)" and lo: "0 \<le> ind_old (sim_path s)"
    and hi: "ind_old (sim_path s) \<le> p_length (sim_path s) - 1"
    and sp: "length sp = length (p_cx (sim_path s))"
    and ks: "keeps_sign f"
    and fin: "\<forall>i\<le>P_T. look_ahead f (node_v (sim_node s)) 1 i \<noteq> None"
    and bad: "\<And>prob. sol_status (solver prob) \<noteq> OPTIMAL \<and>
                      sol_status (solver prob) \<noteq> OPTIMAL_INACCURATE"
  shows "main_tick f solver sp s = ([''Cannot solve linear mpc''], Inl TypeError)"
proof -
  have dl: "(0::real) < 1" by simp
  obtain ind d s0 s1 s2 s3 where
    tr: "calc_optimal_trajectory_in_T_step f (sim_node s) (sim_path s) sp 1 =
       ((sim_path s)\<lparr>ind_old := ind\<rparr>, Inr ([s0, s1, s2, s3], ind, [replicate (P_T + 1) 0]))"
    and sl: "length s0 = P_T + 1" "length s1 = P_T + 1" "length s2 = P_T + 1"
      "length s3 = P_T + 1"
    using calc_optimal_trajectory_rows [OF wf lo hi sp dl ks fin] by blast
  have el: "P_T \<le> length (replicate (P_T + 1) (0::real))" by simp
  show ?thesis
    unfolding main_tick_def tr prod.case sum.case Let_def
      linear_mpc_control_solve_failure [OF sl el bad]
    by simp
qed

text \<open>
  C1 on the code. With a solver that reports infeasible, \<open>solve_linear_mpc\<close> prints its
  message and returns \<open>None\<close> six times; the next statement of \<open>linear_mpc_control\<close>,
  \<open>du = sum(abs(oa - poa)) + ...\<close>, subtracts from \<open>None\<close> and raises TypeError. The
  error leaves \<open>linear_mpc_control\<close> and the tick of \<open>main\<close>: no control is applied, neither
  zero nor any other, and the fallback branch of \<open>main\<close> is never reached. (The vehicle is at
  rest, so every float operation of the look-ahead is exact.)
\<close>

theorem solve_failure_raises_type_error:
  "linear_mpc_control infeasible_solver (np_zeros P_NX (P_T + 1)) [0, 0, 0, 0]
       (np_zeros 1 (P_T + 1)) None None
     = ([''Cannot solve linear mpc''], Inl TypeError) \<and>
   main_tick exact_ops infeasible_solver [1, 1, 0]
       \<lparr>sim_node = \<lparr>node_x = 0, node_y = 0, node_yaw = 0, node_v = 0, node_direct = 1\<rparr>,
        sim_path = PATH_init [0, 1, 2] [0, 0, 0] [0, 0, 0] [0, 0, 0],
        sim_oa = None, sim_odelta = None, sim_time = 0,
        sim_x = [0], sim_y = [0], sim_yaw = [0], sim_v = [0], sim_t = [0], sim_d = [0],
        sim_a = [0]\<rparr>
     = ([''Cannot solve linear mpc''], Inl TypeError)"
proof -
  have bad: "\<And>prob. sol_status (infeasible_solver prob) \<noteq> OPTIMAL \<and>
                    sol_status (infeasible_solver prob) \<noteq> OPTIMAL_INACCURATE"
    by (simp add: infeasible_solver_def)
  have zl: "length (replicate (P_T + 1) (0::real)) = P_T + 1"
    "P_T \<le> length (replicate (P_T + 1) (0::real))"
    by simp_all
  have 1: "linear_mpc_control infeasible_solver (np_zeros P_NX (P_T + 1)) [0, 0, 0, 0]
       (np_zeros 1 (P_T + 1)) None None
     = ([''Cannot solve linear mpc''], Inl TypeError)"
    unfolding np_zeros_rows
    by (rule linear_mpc_control_solve_failure [OF zl(1) zl(1) zl(1) zl(1) zl(2) bad])
  have 2: "main_tick exact_ops infeasible_solver [1, 1, 0]
       \<lparr>sim_node = \<lparr>node_x = 0, node_y = 0, node_yaw = 0, node_v = 0, node_direct = 1\<rparr>,
        sim_path = PATH_init [0, 1, 2] [0, 0, 0] [0, 0, 0] [0, 0, 0],
        sim_oa = None, sim_odelta = None, sim_time = 0,
        sim_x = [0], sim_y = [0], sim_yaw = [0], sim_v = [0], sim_t = [0], sim_d = [0],
        sim_a = [0]\<rparr>
     = ([''Cannot solve linear mpc''], Inl TypeError)"
    by (rule main_tick_solve_failure [OF _ _ _ _ keeps_sign_exact _ bad])
       (simp_all add: wf_PATH_def PATH_init_def look_ahead_exact)
  from 1 2 show ?thesis by (rule conjI)
qed

end
